theory Spec2Isabelle
  imports Main
begin

section \<open>Python string primitives used by the migration scripts\<close>

text \<open>
  Python strings are modelled as \<^typ>\<open>string\<close>, a list of characters whose codes are read
  as the code points 0..255; code points above 255 are outside the model.  Every helper
  below is the Python built-in of the same name, written for this range.
\<close>

definition py_isspace :: "char \<Rightarrow> bool" where
  \<comment> \<open>\<^verbatim>\<open>str.isspace\<close> for one character: the characters \<^verbatim>\<open>str.strip()\<close> removes.\<close>
  "py_isspace c = (c \<in> set [CHR 0x09, CHR 0x0A, CHR 0x0B, CHR 0x0C, CHR 0x0D, CHR 0x1C,
                               CHR 0x1D, CHR 0x1E, CHR 0x1F, CHR 0x20, CHR 0x85, CHR 0xA0])"

definition py_strip_chars :: "string \<Rightarrow> string \<Rightarrow> string" where
  \<comment> \<open>\<^verbatim>\<open>s.strip(chars)\<close>: drops, at both ends, every character that occurs in \<open>chars\<close>.\<close>
  "py_strip_chars chars s =
     rev (dropWhile (\<lambda>c. c \<in> set chars) (rev (dropWhile (\<lambda>c. c \<in> set chars) s)))"

definition py_lstrip_chars :: "string \<Rightarrow> string \<Rightarrow> string" where
  \<comment> \<open>\<^verbatim>\<open>s.lstrip(chars)\<close>.\<close>
  "py_lstrip_chars chars s = dropWhile (\<lambda>c. c \<in> set chars) s"

definition py_strip :: "string \<Rightarrow> string" where
  \<comment> \<open>\<^verbatim>\<open>s.strip()\<close>: drops whitespace at both ends.\<close>
  "py_strip s = rev (dropWhile py_isspace (rev (dropWhile py_isspace s)))"

definition upper_chars :: "char list" where
  "upper_chars = ''ABCDEFGHIJKLMNOPQRSTUVWXYZ'' @
     [
        CHR 0xC0, CHR 0xC1, CHR 0xC2, CHR 0xC3, CHR 0xC4, CHR 0xC5, CHR 0xC6, CHR 0xC7,
        CHR 0xC8, CHR 0xC9, CHR 0xCA, CHR 0xCB, CHR 0xCC, CHR 0xCD, CHR 0xCE, CHR 0xCF,
        CHR 0xD0, CHR 0xD1, CHR 0xD2, CHR 0xD3, CHR 0xD4, CHR 0xD5, CHR 0xD6, CHR 0xD8,
        CHR 0xD9, CHR 0xDA, CHR 0xDB, CHR 0xDC, CHR 0xDD, CHR 0xDE]"

definition lower_chars :: "char list" where
  "lower_chars = ''abcdefghijklmnopqrstuvwxyz'' @
     [
        CHR 0xE0, CHR 0xE1, CHR 0xE2, CHR 0xE3, CHR 0xE4, CHR 0xE5, CHR 0xE6, CHR 0xE7,
        CHR 0xE8, CHR 0xE9, CHR 0xEA, CHR 0xEB, CHR 0xEC, CHR 0xED, CHR 0xEE, CHR 0xEF,
        CHR 0xF0, CHR 0xF1, CHR 0xF2, CHR 0xF3, CHR 0xF4, CHR 0xF5, CHR 0xF6, CHR 0xF8,
        CHR 0xF9, CHR 0xFA, CHR 0xFB, CHR 0xFC, CHR 0xFD, CHR 0xFE]"

definition py_lower_char :: "char \<Rightarrow> char" where
  \<comment> \<open>\<^verbatim>\<open>str.lower\<close> on one code point below 256: A..Z and the Latin-1 capitals
      (0xC0..0xDE without 0xD7) go to the letter 32 code points up; the rest stays.\<close>
  "py_lower_char c = (case map_of (zip upper_chars lower_chars) c of Some l \<Rightarrow> l | None \<Rightarrow> c)"

definition py_lower :: "string \<Rightarrow> string" where
  "py_lower s = map py_lower_char s"

definition py_replace_char :: "char \<Rightarrow> string \<Rightarrow> string \<Rightarrow> string" where
  \<comment> \<open>\<^verbatim>\<open>s.replace(old, new)\<close> for a one-character \<open>old\<close>, the only use in the source.\<close>
  "py_replace_char old new s = concat (map (\<lambda>c. if c = old then new else [c]) s)"

fun py_join :: "string \<Rightarrow> string list \<Rightarrow> string" where
  \<comment> \<open>\<^verbatim>\<open>sep.join(parts)\<close>.\<close>
  "py_join sep [] = []"
| "py_join sep [p] = p"
| "py_join sep (p # q # ps) = p @ sep @ py_join sep (q # ps)"

fun str_nat :: "nat \<Rightarrow> string" where
  "str_nat n =
     (if n < 10 then [''0123456789'' ! n]
      else str_nat (n div 10) @ [''0123456789'' ! (n mod 10)])"

declare str_nat.simps [simp del]

definition str_int :: "int \<Rightarrow> string" where
  \<comment> \<open>\<^verbatim>\<open>str(i)\<close>, which is also how an f-string formats an integer.\<close>
  "str_int i = (if i < 0 then CHR ''-'' # str_nat (nat (- i)) else str_nat (nat i))"


subsection \<open>The strings that \<^verbatim>\<open>float()\<close> accepts\<close>

text \<open>
  \<^verbatim>\<open>float(d)\<close> is only used inside \<^verbatim>\<open>try ... except Exception\<close>, so all that matters is
  whether it returns or raises.  CPython strips the C whitespace (and the two non-ASCII
  blanks below 256) at both ends, allows single underscores between two digits, and then
  accepts an optional sign followed by either a decimal number with an optional exponent or
  one of \<^verbatim>\<open>inf\<close>, \<^verbatim>\<open>infinity\<close>, \<^verbatim>\<open>nan\<close> in any letter case.
\<close>

definition is_digit :: "char \<Rightarrow> bool" where
  "is_digit c = (c \<in> set ''0123456789'')"

definition float_isspace :: "char \<Rightarrow> bool" where
  "float_isspace c = (c \<in> set [CHR 0x09, CHR 0x0A, CHR 0x0B, CHR 0x0C, CHR 0x0D, CHR 0x20,
                                  CHR 0x85, CHR 0xA0])"

definition float_strip :: "string \<Rightarrow> string" where
  "float_strip s = rev (dropWhile float_isspace (rev (dropWhile float_isspace s)))"

fun underscores_ok :: "char \<Rightarrow> string \<Rightarrow> bool" where
  \<comment> \<open>an underscore is allowed only after a digit and before a digit; \<open>prev\<close> is the
      character just read (NUL at the start)\<close>
  "underscores_ok prev [] = (prev \<noteq> CHR ''_'')"
| "underscores_ok prev (c # cs) =
     (if c = CHR ''_'' then is_digit prev \<and> underscores_ok c cs
      else if prev = CHR ''_'' then is_digit c \<and> underscores_ok c cs
      else underscores_ok c cs)"

definition strip_sign :: "string \<Rightarrow> string" where
  "strip_sign s =
     (case s of [] \<Rightarrow> []
      | c # cs \<Rightarrow> if c = CHR ''+'' \<or> c = CHR ''-'' then cs else s)"

definition exponent_ok :: "string \<Rightarrow> bool" where
  \<comment> \<open>what may follow the mantissa: nothing, or e/E, an optional sign and at least one digit\<close>
  "exponent_ok r =
     (case r of [] \<Rightarrow> True
      | e # r' \<Rightarrow> (e = CHR ''e'' \<or> e = CHR ''E'') \<and>
          (let ds = strip_sign r' in ds \<noteq> [] \<and> list_all is_digit ds))"

definition is_decimal_number :: "string \<Rightarrow> bool" where
  \<comment> \<open>digits, optionally a point and digits, at least one digit in all, then the exponent\<close>
  "is_decimal_number s =
     (let ip = takeWhile is_digit s; r1 = dropWhile is_digit s
      in case r1 of
           [] \<Rightarrow> ip \<noteq> []
         | c # r2 \<Rightarrow>
             if c = CHR ''.''
             then (let fp = takeWhile is_digit r2; r3 = dropWhile is_digit r2
                   in (ip \<noteq> [] \<or> fp \<noteq> []) \<and> exponent_ok r3)
             else ip \<noteq> [] \<and> exponent_ok r1)"

definition is_inf_or_nan :: "string \<Rightarrow> bool" where
  \<comment> \<open>CPython compares after lowering A..Z only; \<^const>\<open>py_lower\<close> also moves the Latin-1
      capitals, to letters that are in none of the three words, so the test is the same\<close>
  "is_inf_or_nan s = (py_lower s \<in> set [''inf'', ''infinity'', ''nan''])"

definition py_float_ok :: "string \<Rightarrow> bool" where
  \<comment> \<open>\<open>True\<close> when \<^verbatim>\<open>float(d)\<close> returns, \<open>False\<close> when it raises \<^verbatim>\<open>ValueError\<close>\<close>
  "py_float_ok d =
     (let t = float_strip d
      in underscores_ok (CHR 0x00) t \<and>
         (let v = strip_sign (filter (\<lambda>c. c \<noteq> CHR ''_'') t)
          in is_decimal_number v \<or> is_inf_or_nan v))"


section \<open>Schema translation (\<^verbatim>\<open>migrar_sqlserver_a_mysql.py\<close>)\<close>

text \<open>
  One entry of the list returned by \<^verbatim>\<open>fetch_columns_sqlserver\<close>: a dictionary with exactly
  these keys.  The three numeric entries and the default are \<^verbatim>\<open>None\<close> when the catalog
  holds NULL.
\<close>

record column =
  col_name :: string
  col_type :: string
  char_len :: "int option"
  num_prec :: "int option"
  num_scale :: "int option"
  nullable :: bool
  is_identity :: bool
  col_default :: "string option"

definition TYPE_MAP :: "(string \<times> string) list" where
  "TYPE_MAP =
     [(''bigint'', ''BIGINT''),
      (''int'', ''INT''),
      (''smallint'', ''SMALLINT''),
      (''tinyint'', ''TINYINT''),
      (''bit'', ''TINYINT(1)''),
      (''decimal'', ''DECIMAL''),
      (''numeric'', ''DECIMAL''),
      (''money'', ''DECIMAL(19,4)''),
      (''smallmoney'', ''DECIMAL(10,4)''),
      (''float'', ''DOUBLE''),
      (''real'', ''FLOAT''),
      (''varchar'', ''VARCHAR''),
      (''nvarchar'', ''VARCHAR''),
      (''char'', ''CHAR''),
      (''nchar'', ''CHAR''),
      (''text'', ''LONGTEXT''),
      (''ntext'', ''LONGTEXT''),
      (''date'', ''DATE''),
      (''datetime'', ''DATETIME''),
      (''datetime2'', ''DATETIME''),
      (''smalldatetime'', ''DATETIME''),
      (''time'', ''TIME''),
      (''datetimeoffset'', ''DATETIME''),
      (''binary'', ''BINARY''),
      (''varbinary'', ''VARBINARY''),
      (''image'', ''LONGBLOB''),
      (''uniqueidentifier'', ''CHAR(36)''),
      (''xml'', ''LONGTEXT''),
      (''sql_variant'', ''JSON'')]"

definition dict_get :: "(string \<times> string) list \<Rightarrow> string \<Rightarrow> string \<Rightarrow> string" where
  \<comment> \<open>\<^verbatim>\<open>d.get(k, dflt)\<close>\<close>
  "dict_get d k dflt = (case map_of d k of Some v \<Rightarrow> v | None \<Rightarrow> dflt)"

definition int_or :: "int option \<Rightarrow> int \<Rightarrow> int" where
  \<comment> \<open>\<^verbatim>\<open>x or dflt\<close> for an optional integer: \<^verbatim>\<open>None\<close> and \<^verbatim>\<open>0\<close> are both falsy\<close>
  "int_or x dflt = (case x of None \<Rightarrow> dflt | Some v \<Rightarrow> if v = 0 then dflt else v)"

definition sized_types :: "string list" where
  "sized_types = [''VARCHAR'', ''CHAR'', ''VARBINARY'', ''BINARY'']"

definition sqlserver_to_mysql_type :: "column \<Rightarrow> string" where
  "sqlserver_to_mysql_type col =
     (let t = col_type col;
          mapped = dict_get TYPE_MAP t ''TEXT''
      in if mapped \<in> set sized_types then
           (let len = (case char_len col of
                         None \<Rightarrow> 255
                       | Some l \<Rightarrow> if l \<noteq> 0 \<and> l > 0 then l else 255)
            in mapped @ ''('' @ str_int len @ '')'')
         else if mapped = ''DECIMAL'' then
           (let p = int_or (num_prec col) 18;
                s = int_or (num_scale col) 0
            in ''DECIMAL('' @ str_int p @ '','' @ str_int s @ '')'')
         else mapped)"

definition timestamp_spellings :: "string list" where
  "timestamp_spellings = [''getdate'', ''getdate()'', ''sysdatetime()'', ''current_timestamp'']"

definition newid_spellings :: "string list" where
  "newid_spellings = [''newid'', ''newid()'']"

definition escape_literal :: "string \<Rightarrow> string" where
  \<comment> \<open>\<^verbatim>\<open>d.lstrip("N").strip("'").replace("\\", "\\\\").replace("'", "\\'")\<close>\<close>
  "escape_literal d =
     py_replace_char (CHR 0x27) [CHR 0x5C, CHR 0x27]
       (py_replace_char (CHR 0x5C) [CHR 0x5C, CHR 0x5C]
          (py_strip_chars [CHR 0x27] (py_lstrip_chars ''N'' d)))"

definition default_clause :: "string option \<Rightarrow> string" where
  \<comment> \<open>what the block \<^verbatim>\<open>if col["default"]: ...\<close> appends to the column definition\<close>
  "default_clause dflt =
     (case dflt of
        None \<Rightarrow> []
      | Some raw \<Rightarrow>
          if raw = [] then []
          else
            (let d = py_strip_chars ''()'' (py_strip raw)
             in if py_lower d \<in> set timestamp_spellings then '' DEFAULT CURRENT_TIMESTAMP''
                else if py_lower d \<in> set newid_spellings then []
                else if py_float_ok d then '' DEFAULT '' @ d
                else '' DEFAULT '' @ [CHR 0x27] @ escape_literal d @ [CHR 0x27]))"

definition column_def :: "column \<Rightarrow> string" where
  \<comment> \<open>the value of \<^verbatim>\<open>col_def\<close> when it is appended to \<^verbatim>\<open>parts\<close>\<close>
  "column_def col =
     [CHR 0x60] @ col_name col @ [CHR 0x60] @ '' '' @ sqlserver_to_mysql_type col
     @ (if is_identity col then '' AUTO_INCREMENT'' else [])
     @ (if \<not> nullable col \<or> is_identity col then '' NOT NULL'' else '' NULL'')
     @ default_clause (col_default col)"

definition backquote :: "string \<Rightarrow> string" where
  "backquote c = [CHR 0x60] @ c @ [CHR 0x60]"

definition build_create_table_mysql :: "string \<Rightarrow> column list \<Rightarrow> string list \<Rightarrow> string" where
  "build_create_table_mysql table columns pk_cols =
     (let parts = map column_def columns;
          parts' = (if pk_cols \<noteq> []
                    then parts @ [''PRIMARY KEY ('' @ py_join '', '' (map backquote pk_cols) @ '')'']
                    else parts);
          cols_sql = py_join ('','' @ [CHR 0x0A] @ ''  '') parts'
      in ''CREATE TABLE IF NOT EXISTS '' @ backquote table @ '' ('' @ [CHR 0x0A] @ ''  ''
         @ cols_sql @ [CHR 0x0A] @ '') ENGINE=InnoDB DEFAULT CHARSET=utf8mb4;'')"

definition quote_ident_list :: "string list \<Rightarrow> string" where
  "quote_ident_list cols = py_join '', '' (map backquote cols)"


section \<open>The two databases and the console\<close>

text \<open>
  The scripts talk to a SQL Server cursor, a MySQL cursor and the console.  The state they
  thread through is modelled as one record.  The source database answers metadata and data
  queries (the \<open>src_\<close> functions are its contents); every call on either cursor is appended
  to a log, so that the order of the calls can be stated.  Every statement is taken to
  succeed: driver errors are outside the model.  Of the console output only the row
  counts are kept.
\<close>

datatype src_op =
    MetaTables string                \<comment> \<open>\<^verbatim>\<open>fetch_tables_sqlserver(cur, schema)\<close>\<close>
  | MetaColumns string string        \<comment> \<open>\<^verbatim>\<open>fetch_columns_sqlserver(cur, schema, table)\<close>\<close>
  | MetaPrimaryKey string string     \<comment> \<open>\<^verbatim>\<open>fetch_primary_key_sqlserver(cur, schema, table)\<close>\<close>
  | Query string                     \<comment> \<open>\<^verbatim>\<open>sql_cur.execute(statement)\<close>\<close>
  | Fetched nat                      \<comment> \<open>\<^verbatim>\<open>sql_cur.fetchmany(n)\<close>, with the number of rows it returned\<close>

datatype 'v mysql_op =
    MetaMysqlPk string string        \<comment> \<open>\<^verbatim>\<open>fetch_mysql_pk_columns(mysql_cur, db, table)\<close>\<close>
  | Execute string                   \<comment> \<open>\<^verbatim>\<open>mysql_cur.execute(statement)\<close>\<close>
  | ExecuteMany string "'v list list"  \<comment> \<open>\<^verbatim>\<open>mysql_cur.executemany(statement, data)\<close>\<close>
  | Commit                           \<comment> \<open>\<^verbatim>\<open>mysql_conn.commit()\<close>\<close>

datatype out_msg =
    Progress nat                     \<comment> \<open>the per-batch line with the running total\<close>
  | Completed nat                    \<comment> \<open>the closing line with the final total\<close>

record 'v world =
  src_tables :: "string \<Rightarrow> string list"
  src_columns :: "string \<Rightarrow> string \<Rightarrow> column list"
  src_pk :: "string \<Rightarrow> string \<Rightarrow> string list"
  src_answer :: "string \<Rightarrow> 'v list list"
  src_pending :: "'v list list"
  src_log :: "src_op list"
  mysql_pk :: "string \<Rightarrow> string \<Rightarrow> string list"
  mysql_log :: "'v mysql_op list"
  stdout :: "out_msg list"

definition sql_execute :: "string \<Rightarrow> 'v world \<Rightarrow> 'v world" where
  \<comment> \<open>the cursor now holds the rows the source database answers to the statement\<close>
  "sql_execute q w = w\<lparr>src_pending := src_answer w q, src_log := src_log w @ [Query q]\<rparr>"

definition fetched_rows :: "nat \<Rightarrow> 'v world \<Rightarrow> 'v list list" where
  \<comment> \<open>the list \<^verbatim>\<open>fetchmany(n)\<close> returns: the next rows, at most \<open>n\<close> of them\<close>
  "fetched_rows n w = take n (src_pending w)"

definition after_fetch :: "nat \<Rightarrow> 'v world \<Rightarrow> 'v world" where
  \<comment> \<open>the cursor after \<^verbatim>\<open>fetchmany(n)\<close>\<close>
  "after_fetch n w =
     w\<lparr>src_pending := drop n (src_pending w),
       src_log := src_log w @ [Fetched (length (take n (src_pending w)))]\<rparr>"

definition mysql_op :: "'v mysql_op \<Rightarrow> 'v world \<Rightarrow> 'v world" where
  "mysql_op op w = w\<lparr>mysql_log := mysql_log w @ [op]\<rparr>"

definition src_meta :: "src_op \<Rightarrow> 'v world \<Rightarrow> 'v world" where
  "src_meta op w = w\<lparr>src_log := src_log w @ [op]\<rparr>"

definition print_msg :: "out_msg \<Rightarrow> 'v world \<Rightarrow> 'v world" where
  "print_msg m w = w\<lparr>stdout := stdout w @ [m]\<rparr>"


section \<open>The batch loop\<close>

text \<open>
  \<^verbatim>\<open>copy_table\<close>, \<^verbatim>\<open>update_only\<close> and \<^verbatim>\<open>upsert_mode\<close> end with the same \<^verbatim>\<open>while True\<close> loop:
  fetch, stop on an empty fetch, build \<^verbatim>\<open>data\<close>, \<^verbatim>\<open>executemany\<close>, \<^verbatim>\<open>commit\<close>, add
  \<^verbatim>\<open>len(data)\<close> to \<^verbatim>\<open>total\<close> (here \<open>tot\<close>), print.  They differ in the statement and in how \<^verbatim>\<open>data\<close> is
  built from \<^verbatim>\<open>rows\<close>, which are the parameters \<open>sql\<close> and \<open>bind\<close> here.
\<close>

function transfer_loop ::
  "('v list list \<Rightarrow> 'v list list) \<Rightarrow> string \<Rightarrow> nat \<Rightarrow> 'v world \<Rightarrow> nat \<Rightarrow> 'v world \<times> nat" where
  "transfer_loop bind sql batch_size w tot =
     (let rows = fetched_rows batch_size w;
          w1 = after_fetch batch_size w
      in if rows = [] then (w1, tot)
         else
           (let data = bind rows;
                w2 = mysql_op Commit (mysql_op (ExecuteMany sql data) w1);
                tot' = tot + length data;
                w3 = print_msg (Progress tot') w2
            in transfer_loop bind sql batch_size w3 tot'))"
  by pat_completeness auto
termination
  by (relation "measure (\<lambda>(bind, sql, n, w, tot). length (src_pending w))")
     (auto simp: fetched_rows_def after_fetch_def mysql_op_def print_msg_def)

declare transfer_loop.simps [simp del]

definition tuples :: "'v list list \<Rightarrow> 'v list list" where
  \<comment> \<open>\<^verbatim>\<open>[tuple(row) for row in rows]\<close>\<close>
  "tuples rows = map (\<lambda>row. row) rows"

definition bracket :: "string \<Rightarrow> string" where
  "bracket c = ''['' @ c @ '']''"

definition truthy_list :: "string list option \<Rightarrow> bool" where
  \<comment> \<open>the truth value of an \<^verbatim>\<open>Optional[List[str]]\<close>\<close>
  "truthy_list x = (case x of None \<Rightarrow> False | Some l \<Rightarrow> l \<noteq> [])"

definition truthy_str :: "string option \<Rightarrow> bool" where
  \<comment> \<open>the truth value of an \<^verbatim>\<open>Optional[str]\<close>\<close>
  "truthy_str x = (case x of None \<Rightarrow> False | Some s \<Rightarrow> s \<noteq> [])"


section \<open>Create and copy (\<^verbatim>\<open>copy_table\<close>)\<close>

definition copy_cols :: "string list option \<Rightarrow> column list \<Rightarrow> column list" where
  \<comment> \<open>\<^verbatim>\<open>cols\<close> after the filter on \<^verbatim>\<open>only_cols\<close>\<close>
  "copy_cols only_cols all_cols_meta =
     (if truthy_list only_cols
      then filter (\<lambda>c. col_name c \<in> set (the only_cols)) all_cols_meta
      else all_cols_meta)"

definition copy_pk :: "string list option \<Rightarrow> string list \<Rightarrow> string list" where
  \<comment> \<open>\<^verbatim>\<open>pk\<close> after the filter on \<^verbatim>\<open>only_cols\<close>\<close>
  "copy_pk only_cols pk =
     (if truthy_list only_cols
      then filter (\<lambda>c. c \<in> set (the only_cols)) pk
      else pk)"

definition copy_select :: "string \<Rightarrow> string \<Rightarrow> string list \<Rightarrow> string list \<Rightarrow> string" where
  \<comment> \<open>the SELECT that \<^verbatim>\<open>copy_table\<close> sends to SQL Server\<close>
  "copy_select schema table col_names pk =
     (let select_cols = py_join '', '' (map bracket col_names);
          order_by = (if pk \<noteq> [] then '' ORDER BY '' @ py_join '', '' (map bracket pk) else [])
      in ''SELECT '' @ select_cols @ '' FROM ['' @ schema @ ''].['' @ table @ '']'' @ order_by @ '';'')"

definition copy_table ::
  "string \<Rightarrow> string \<Rightarrow> nat \<Rightarrow> string list option \<Rightarrow> 'v world \<Rightarrow> 'v world" where
  "copy_table schema table batch_size only_cols w =
     (let all_cols_meta = src_columns w schema table;
          w_a = src_meta (MetaColumns schema table) w;
          pk0 = src_pk w schema table;
          w_b = src_meta (MetaPrimaryKey schema table) w_a;
          cols = copy_cols only_cols all_cols_meta;
          pk = copy_pk only_cols pk0;
          create_sql = build_create_table_mysql table cols pk;
          w_c = mysql_op Commit (mysql_op (Execute create_sql) w_b);
          col_names = map col_name cols;
          w_d = sql_execute (copy_select schema table col_names pk) w_c;
          placeholders = py_join '', '' (replicate (length col_names) ''%s'');
          insert_sql = ''INSERT INTO '' @ backquote table @ '' ('' @ quote_ident_list col_names
                       @ '') VALUES ('' @ placeholders @ '')'';
          (w_e, tot) = transfer_loop tuples insert_sql batch_size w_d 0
      in print_msg (Completed tot) w_e)"


section \<open>Update and upsert (\<^verbatim>\<open>actualizar.py\<close>)\<close>

datatype outcome =
    SysExit int      \<comment> \<open>\<^verbatim>\<open>sys.exit(code)\<close>\<close>
  | Returned         \<comment> \<open>the function ran to its end or hit a plain \<^verbatim>\<open>return\<close>\<close>

record 'v bind_state =
  bs_rows :: "'v list list"   \<comment> \<open>the fetched batch \<^verbatim>\<open>rows\<close>\<close>
  bs_data :: "'v list list"   \<comment> \<open>the list \<^verbatim>\<open>data\<close> being built\<close>

definition reorder_row :: "nat \<Rightarrow> 'v list \<Rightarrow> 'v list" where
  \<comment> \<open>\<^verbatim>\<open>tuple(list(col_vals) + list(pk_vals))\<close> with the two slices of \<open>r\<close> at \<open>k = len(pk_cols)\<close>\<close>
  "reorder_row k r =
     (let pk_vals = take k r;
          col_vals = drop k r
      in col_vals @ pk_vals)"

definition reorder_step :: "nat \<Rightarrow> 'v list \<Rightarrow> 'v bind_state \<Rightarrow> 'v bind_state" where
  \<comment> \<open>one pass through the body of \<^verbatim>\<open>for r in rows\<close>: \<^verbatim>\<open>data.append(...)\<close>\<close>
  "reorder_step k r st = st\<lparr>bs_data := bs_data st @ [reorder_row k r]\<rparr>"

definition reorder_batch :: "nat \<Rightarrow> 'v list list \<Rightarrow> 'v bind_state" where
  \<comment> \<open>\<^verbatim>\<open>data = []\<close> followed by the \<^verbatim>\<open>for\<close> loop over the batch\<close>
  "reorder_batch k rows = fold (reorder_step k) rows \<lparr>bs_rows = rows, bs_data = []\<rparr>"

definition where_sql :: "string option \<Rightarrow> string" where
  "where_sql where_clause =
     (if truthy_str where_clause then '' WHERE '' @ the where_clause @ '' '' else [])"

definition key_select ::
  "string \<Rightarrow> string \<Rightarrow> string list \<Rightarrow> string list \<Rightarrow> string option \<Rightarrow> string" where
  \<comment> \<open>the SELECT that \<^verbatim>\<open>update_only\<close> and \<^verbatim>\<open>upsert_mode\<close> send to SQL Server\<close>
  "key_select schema table fetch_cols pk_cols where_clause =
     (let select_cols = py_join '', '' (map bracket fetch_cols);
          order_by = '' ORDER BY '' @ py_join '', '' (map bracket pk_cols)
      in ''SELECT '' @ select_cols @ '' FROM ['' @ schema @ ''].['' @ table @ '']''
         @ where_sql where_clause @ order_by @ '';'')"

definition assign_placeholder :: "string \<Rightarrow> string" where
  "assign_placeholder c = backquote c @ ''=%s''"

definition update_statement :: "string \<Rightarrow> string list \<Rightarrow> string list \<Rightarrow> string" where
  \<comment> \<open>\<^verbatim>\<open>upd_sql\<close>, from the SET columns and the key columns\<close>
  "update_statement table set_cols pk_cols =
     (let set_clause = py_join '', '' (map assign_placeholder set_cols);
          where_pred = py_join '' AND '' (map assign_placeholder pk_cols)
      in ''UPDATE '' @ backquote table @ '' SET '' @ set_clause @ '' WHERE '' @ where_pred)"

definition update_only ::
  "string \<Rightarrow> string \<Rightarrow> string list \<Rightarrow> string list \<Rightarrow> nat \<Rightarrow> string option \<Rightarrow> 'v world
   \<Rightarrow> outcome \<times> 'v world" where
  "update_only schema table pk_cols upd_cols0 batch_size where_clause w =
     (if pk_cols = [] then (SysExit 1, w)
      else
        (let upd_cols = filter (\<lambda>c. c \<notin> set pk_cols) upd_cols0
         in if upd_cols = [] then (Returned, w)
            else
              (let w1 = sql_execute
                          (key_select schema table (pk_cols @ upd_cols) pk_cols where_clause) w;
                   upd_sql = update_statement table upd_cols pk_cols;
                   (w2, tot) = transfer_loop
                                   (\<lambda>rows. bs_data (reorder_batch (length pk_cols) rows))
                                   upd_sql batch_size w1 0
               in (Returned, print_msg (Completed tot) w2))))"

definition values_assign :: "string \<Rightarrow> string" where
  "values_assign c = backquote c @ ''=VALUES('' @ backquote c @ '')''"

definition upsert_statement :: "string \<Rightarrow> string list \<Rightarrow> string list \<Rightarrow> string" where
  \<comment> \<open>\<^verbatim>\<open>sql\<close>, from the inserted columns and the non-key columns\<close>
  "upsert_statement table insert_cols non_pk_upd =
     (let placeholders = py_join '', '' (replicate (length insert_cols) ''%s'');
          update_set = py_join '', '' (map values_assign non_pk_upd)
      in if update_set \<noteq> []
         then ''INSERT INTO '' @ backquote table @ '' ('' @ py_join '', '' (map backquote insert_cols)
              @ '') VALUES ('' @ placeholders @ '') ON DUPLICATE KEY UPDATE '' @ update_set
         else ''INSERT IGNORE INTO '' @ backquote table @ '' (''
              @ py_join '', '' (map backquote insert_cols) @ '') VALUES ('' @ placeholders @ '')'')"

definition upsert_mode ::
  "string \<Rightarrow> string \<Rightarrow> string list \<Rightarrow> string list \<Rightarrow> nat \<Rightarrow> string option \<Rightarrow> 'v world
   \<Rightarrow> outcome \<times> 'v world" where
  "upsert_mode schema table pk_cols upd_cols batch_size where_clause w =
     (if pk_cols = [] then (SysExit 1, w)
      else
        (let non_pk_upd = filter (\<lambda>c. c \<notin> set pk_cols) upd_cols;
             insert_cols = pk_cols @ non_pk_upd
         in if insert_cols = [] then (Returned, w)
            else
              (let w1 = sql_execute (key_select schema table insert_cols pk_cols where_clause) w;
                   sql = upsert_statement table insert_cols non_pk_upd;
                   (w2, tot) = transfer_loop tuples sql batch_size w1 0
               in (Returned, print_msg (Completed tot) w2))))"


subsection \<open>The wizard of \<^verbatim>\<open>actualizar.py\<close>, from the first catalog query on\<close>

text \<open>
  \<^verbatim>\<open>main\<close> is modelled from the point where both connections are open.  What the operator
  typed is a record: \<^verbatim>\<open>choose\<close> returns one of its two options, \<^verbatim>\<open>ask\<close> a string, and the
  column prompt either nothing (all proposed columns) or the list of names split at commas.
\<close>

datatype mode = UPDATE | UPSERT

record answers =
  a_mode :: mode
  a_schema :: string
  a_mysql_db :: string
  a_mysql_table :: string
  a_src_table :: string
  a_columns :: "string list option"   \<comment> \<open>\<open>None\<close>: the line was left empty\<close>
  a_where :: string
  a_continue :: bool                  \<comment> \<open>the answer to the closing confirmation\<close>

definition dedupe :: "string list \<Rightarrow> string list" where
  \<comment> \<open>\<^verbatim>\<open>list(dict.fromkeys(xs))\<close>: first occurrences, in order\<close>
  "dedupe xs = rev (remdups (rev xs))"

definition safe_cols :: "column list \<Rightarrow> string list" where
  \<comment> \<open>the columns proposed for updating: no identity, no \<^verbatim>\<open>timestamp\<close>/\<^verbatim>\<open>rowversion\<close>\<close>
  "safe_cols meta =
     map col_name
       (filter (\<lambda>c. \<not> is_identity c \<and> col_type c \<notin> set [''timestamp'', ''rowversion'']) meta)"

definition choose_columns_interactive :: "string list \<Rightarrow> string list option \<Rightarrow> outcome + string list" where
  "choose_columns_interactive all_cols sel =
     (case sel of
        None \<Rightarrow> Inr all_cols
      | Some chosen \<Rightarrow>
          (let missing = filter (\<lambda>c. c \<notin> set all_cols) chosen
           in if missing \<noteq> [] then Inl (SysExit 1) else Inr chosen))"

definition none_if_empty :: "string \<Rightarrow> string option" where
  \<comment> \<open>\<^verbatim>\<open>where_clause or None\<close>\<close>
  "none_if_empty s = (if s = [] then None else Some s)"

definition main :: "answers \<Rightarrow> 'v world \<Rightarrow> outcome \<times> 'v world" where
  "main a w =
     (let schema = a_schema a;
          tables = src_tables w schema;
          w1 = src_meta (MetaTables schema) w
      in if tables = [] then (SysExit 0, w1)
         else
           (let src_table = a_src_table a
            in if src_table = [] \<or> src_table \<notin> set tables then (SysExit 1, w1)
               else
                 (let meta = src_columns w1 schema src_table;
                      w2 = src_meta (MetaColumns schema src_table) w1;
                      pk_sql = src_pk w2 schema src_table;
                      w3 = src_meta (MetaPrimaryKey schema src_table) w2
                  in case choose_columns_interactive (safe_cols meta) (a_columns a) of
                       Inl e \<Rightarrow> (e, w3)
                     | Inr upd_cols \<Rightarrow>
                         (let where_clause = a_where a;
                              pk_mysql = mysql_pk w3 (a_mysql_db a) (a_mysql_table a);
                              w4 = mysql_op (MetaMysqlPk (a_mysql_db a) (a_mysql_table a)) w3
                          in if a_mode a = UPSERT \<and> pk_mysql = [] then (SysExit 1, w4)
                             else if \<not> a_continue a then (SysExit 0, w4)
                             else if a_mode a = UPDATE then
                               (if pk_sql = [] then (SysExit 1, w4)
                                else
                                  update_only schema src_table pk_sql upd_cols 10000
                                    (none_if_empty where_clause) w4)
                             else
                               (if pk_mysql = [] then (SysExit 1, w4)
                                else
                                  (let pk_for_upsert = (if pk_sql \<noteq> [] then pk_sql else pk_mysql);
                                       need_cols = dedupe (pk_for_upsert @ upd_cols)
                                   in upsert_mode schema src_table pk_for_upsert need_cols 10000
                                        (none_if_empty where_clause) w4))))))"


section \<open>Notions used to state the properties\<close>

function chunks :: "nat \<Rightarrow> 'a list \<Rightarrow> 'a list list" where
  \<comment> \<open>the list cut into consecutive pieces of \<open>n\<close> elements, the last one possibly shorter\<close>
  "chunks n xs = (if n = 0 \<or> xs = [] then [] else take n xs # chunks n (drop n xs))"
  by pat_completeness auto
termination
  by (relation "measure (\<lambda>(n, xs). length xs)") auto

declare chunks.simps [simp del]

fun progress_msgs :: "nat \<Rightarrow> 'a list list \<Rightarrow> out_msg list" where
  \<comment> \<open>the running totals after each piece, starting from \<open>t\<close>\<close>
  "progress_msgs t [] = []"
| "progress_msgs t (c # cs) = Progress (t + length c) # progress_msgs (t + length c) cs"

definition batch_writes :: "string \<Rightarrow> 'v list list list \<Rightarrow> 'v mysql_op list" where
  \<comment> \<open>one multi-row write followed by one commit for each piece\<close>
  "batch_writes sql cs = concat (map (\<lambda>c. [ExecuteMany sql c, Commit]) cs)"

fun is_prefix :: "string \<Rightarrow> string \<Rightarrow> bool" where
  "is_prefix [] s = True"
| "is_prefix (p # ps) [] = False"
| "is_prefix (p # ps) (c # cs) = (p = c \<and> is_prefix ps cs)"

fun contains :: "string \<Rightarrow> string \<Rightarrow> bool" where
  \<comment> \<open>\<^verbatim>\<open>sub in s\<close>\<close>
  "contains sub [] = (sub = [])"
| "contains sub (c # cs) = (is_prefix sub (c # cs) \<or> contains sub cs)"


definition empty_world :: "'v world" where
  \<comment> \<open>empty databases, idle cursors, nothing printed: the starting point of the examples\<close>
  "empty_world =
     \<lparr>src_tables = (\<lambda>schema. []), src_columns = (\<lambda>schema table. []),
      src_pk = (\<lambda>schema table. []), src_answer = (\<lambda>q. []), src_pending = [], src_log = [],
      mysql_pk = (\<lambda>db table. []), mysql_log = [], stdout = []\<rparr>"


text \<open>
  The table of the round-trip scenario, \<^verbatim>\<open>orders(id INT PK, status VARCHAR(20), total
  DECIMAL(10,2))\<close>, with three rows of \<^verbatim>\<open>(id, status)\<close> on the source side.
\<close>

definition orders_columns :: "column list" where
  "orders_columns =
     [\<lparr>col_name = ''id'', col_type = ''int'', char_len = None, num_prec = Some 10,
       num_scale = Some 0, nullable = False, is_identity = False, col_default = None\<rparr>,
      \<lparr>col_name = ''status'', col_type = ''varchar'', char_len = Some 20, num_prec = None,
       num_scale = None, nullable = True, is_identity = False, col_default = None\<rparr>,
      \<lparr>col_name = ''total'', col_type = ''decimal'', char_len = None, num_prec = Some 10,
       num_scale = Some 2, nullable = True, is_identity = False, col_default = None\<rparr>]"

definition orders_db :: "string world" where
  "orders_db =
     empty_world\<lparr>src_tables := (\<lambda>schema. [''orders'']),
                 src_columns := (\<lambda>schema table. orders_columns),
                 src_pk := (\<lambda>schema table. [''id'']),
                 src_answer := (\<lambda>q. [[''1'', ''open''], [''2'', ''paid''], [''3'', ''void'']]),
                 mysql_pk := (\<lambda>db table. [''id''])\<rparr>"


text \<open>
  A request for UPDATE mode on a source table without a primary key; every prompt is
  answered so that the run goes as far as it can.
\<close>

definition no_key_request :: answers where
  "no_key_request =
     \<lparr>a_mode = UPDATE, a_schema = ''dbo'', a_mysql_db = ''shop'', a_mysql_table = ''orders'',
      a_src_table = ''orders'', a_columns = Some [''status''], a_where = [], a_continue = True\<rparr>"

definition keyless_db :: "string world" where
  "keyless_db = orders_db\<lparr>src_pk := (\<lambda>schema table. [])\<rparr>"

text \<open>A column whose default is a function call that the translation does not know.\<close>

definition owner_col :: column where
  "owner_col =
     \<lparr>col_name = ''owner'', col_type = ''int'', char_len = None, num_prec = None,
      num_scale = None, nullable = True, is_identity = False,
      col_default = Some ''(user_name())''\<rparr>"

section \<open>The batch loop in one equation\<close>

lemma chunks_Nil [simp]: "chunks n [] = []"
  by (simp add: chunks.simps)

lemma chunks_step: "0 < n \<Longrightarrow> xs \<noteq> [] \<Longrightarrow> chunks n xs = take n xs # chunks n (drop n xs)"
  by (subst chunks.simps) simp

lemma concat_chunks: "0 < n \<Longrightarrow> concat (chunks n xs) = xs"
proof (induction n xs rule: chunks.induct)
  case (1 n xs)
  show ?case
  proof (cases "xs = []")
    case True
    then show ?thesis by simp
  next
    case False
    with 1 show ?thesis by (simp add: chunks_step)
  qed
qed

lemma chunks_bounds: "0 < n \<Longrightarrow> c \<in> set (chunks n xs) \<Longrightarrow> c \<noteq> [] \<and> length c \<le> n"
proof (induction n xs rule: chunks.induct)
  case (1 n xs)
  show ?case
  proof (cases "xs = []")
    case True
    with 1 show ?thesis by simp
  next
    case False
    with 1 show ?thesis by (auto simp: chunks_step)
  qed
qed

lemma chunks_25000:
  assumes "length xs = 25000"
  shows "map length (chunks 10000 xs) = [10000, 10000, 5000]"
proof -
  have a: "xs \<noteq> []" "drop 10000 xs \<noteq> []" "drop 10000 (drop 10000 xs) \<noteq> []"
    using assms by auto
  have b: "drop 10000 (drop 10000 (drop 10000 xs)) = []"
    using assms by simp
  have "chunks 10000 xs =
        [take 10000 xs, take 10000 (drop 10000 xs), take 10000 (drop 10000 (drop 10000 xs))]"
    using a b by (simp add: chunks_step del: drop_drop)
  then show ?thesis using assms by simp
qed

text \<open>
  The whole run of the loop in one equation: what it leaves on the cursor, in the two logs
  and on the console, and the total it returns.  \<open>bind\<close> must keep the number of rows, as
  both ways of building \<^verbatim>\<open>data\<close> do.
\<close>

lemma transfer_loop_eq:
  assumes "0 < n" and "\<And>rows. length (bind rows) = length rows"
  shows "transfer_loop bind sql n w t =
     (w\<lparr>src_pending := [],
        src_log := src_log w @ map (\<lambda>c. Fetched (length c)) (chunks n (src_pending w)) @ [Fetched 0],
        mysql_log := mysql_log w @ batch_writes sql (map bind (chunks n (src_pending w))),
        stdout := stdout w @ progress_msgs t (chunks n (src_pending w))\<rparr>,
      t + length (src_pending w))"
  using assms
proof (induction bind sql n w t rule: transfer_loop.induct)
  case (1 bind sql n w t)
  note pos = \<open>0 < n\<close> and len = \<open>\<And>rows. length (bind rows) = length rows\<close>
  show ?case
  proof (cases "src_pending w = []")
    case True
    then show ?thesis
      by (subst transfer_loop.simps)
         (simp add: fetched_rows_def after_fetch_def batch_writes_def)
  next
    case False
    define w3 where "w3 = print_msg (Progress (t + length (bind (fetched_rows n w))))
        (mysql_op Commit (mysql_op (ExecuteMany sql (bind (fetched_rows n w))) (after_fetch n w)))"
    have ne: "fetched_rows n w \<noteq> []"
      using False pos by (simp add: fetched_rows_def)
    have step: "transfer_loop bind sql n w t =
                transfer_loop bind sql n w3 (t + length (bind (fetched_rows n w)))"
      using ne by (subst transfer_loop.simps) (simp add: Let_def w3_def)
    have ih: "transfer_loop bind sql n w3 (t + length (bind (fetched_rows n w))) =
       (w3\<lparr>src_pending := [],
        src_log := src_log w3 @ map (\<lambda>c. Fetched (length c)) (chunks n (src_pending w3)) @ [Fetched 0],
        mysql_log := mysql_log w3 @ batch_writes sql (map bind (chunks n (src_pending w3))),
        stdout := stdout w3 @ progress_msgs (t + length (bind (fetched_rows n w))) (chunks n (src_pending w3))\<rparr>,
      (t + length (bind (fetched_rows n w))) + length (src_pending w3))"
      using "1.IH" [OF refl refl ne refl refl refl refl pos len] by (simp add: w3_def)
    have pend: "src_pending w3 = drop n (src_pending w)"
      by (simp add: w3_def print_msg_def mysql_op_def after_fetch_def)
    have ch: "chunks n (src_pending w) = take n (src_pending w) # chunks n (drop n (src_pending w))"
      using False by (rule chunks_step [OF pos])
    have tl: "length (take n (src_pending w)) + length (drop n (src_pending w)) = length (src_pending w)"
      by simp
    show ?thesis
      unfolding step ih pend ch
      using tl
      by (simp add: w3_def print_msg_def mysql_op_def after_fetch_def fetched_rows_def
            batch_writes_def len del: length_take length_drop)
  qed
qed

lemma tuples_id [simp]: "tuples rows = rows"
  by (simp add: tuples_def)

lemma transfer_loop_tuples:
  assumes "0 < n"
  shows "transfer_loop tuples sql n w t =
     (w\<lparr>src_pending := [],
        src_log := src_log w @ map (\<lambda>c. Fetched (length c)) (chunks n (src_pending w)) @ [Fetched 0],
        mysql_log := mysql_log w @ batch_writes sql (chunks n (src_pending w)),
        stdout := stdout w @ progress_msgs t (chunks n (src_pending w))\<rparr>,
      t + length (src_pending w))"
proof -
  have "map tuples (chunks n (src_pending w)) = chunks n (src_pending w)"
    by (induction "chunks n (src_pending w)") (simp_all add: map_idI)
  then show ?thesis
    using transfer_loop_eq [OF assms, of tuples sql w t] by simp
qed


section \<open>The type mapping\<close>

lemma is_prefix_append: "is_prefix p (p @ s)"
  by (induction p) simp_all

lemma is_prefix_refl: "is_prefix p p"
  using is_prefix_append [of p "[]"] by simp

lemma type_of_known:
  assumes m: "map_of TYPE_MAP (col_type col) = Some m"
  shows "is_prefix m (sqlserver_to_mysql_type col)"
proof -
  have d: "dict_get TYPE_MAP (col_type col) ''TEXT'' = m"
    by (simp add: dict_get_def m)
  show ?thesis
    unfolding sqlserver_to_mysql_type_def Let_def d
    by (simp add: is_prefix_append is_prefix_refl)
qed

lemma type_of_plain:
  assumes m: "map_of TYPE_MAP (col_type col) = Some m"
    and "m \<notin> set [''VARCHAR'', ''CHAR'', ''VARBINARY'', ''BINARY'', ''DECIMAL'']"
  shows "sqlserver_to_mysql_type col = m"
proof -
  have d: "dict_get TYPE_MAP (col_type col) ''TEXT'' = m"
    by (simp add: dict_get_def m)
  show ?thesis
    unfolding sqlserver_to_mysql_type_def Let_def d
    using assms(2) by (simp add: sized_types_def)
qed

lemma type_of_unknown:
  assumes m: "map_of TYPE_MAP (col_type col) = None"
  shows "sqlserver_to_mysql_type col = ''TEXT''"
proof -
  have d: "dict_get TYPE_MAP (col_type col) ''TEXT'' = ''TEXT''"
    by (simp add: dict_get_def m)
  show ?thesis
    unfolding sqlserver_to_mysql_type_def Let_def d
    by (simp add: sized_types_def)
qed

lemma type_depends_on:
  assumes "col_type col' = col_type col" "char_len col' = char_len col"
    "num_prec col' = num_prec col" "num_scale col' = num_scale col"
  shows "sqlserver_to_mysql_type col' = sqlserver_to_mysql_type col"
  unfolding sqlserver_to_mysql_type_def assms ..

text \<open>
  C2.  \<^const>\<open>sqlserver_to_mysql_type\<close> is a function of the column descriptor with a value
  for every descriptor (it has no failing branch).  For a type name that is not a key of
  \<^const>\<open>TYPE_MAP\<close> the value is \<^verbatim>\<open>TEXT\<close>.  For a key of the table the value begins with the
  table's entry, and it is exactly the entry unless the entry is one of the five names that
  take a length or a precision.  The value depends on the descriptor only through its
  type name, length, precision and scale.
\<close>

theorem type_mapping_total:
  "(map_of TYPE_MAP (col_type col) = None \<longrightarrow> sqlserver_to_mysql_type col = ''TEXT'')
   \<and> (\<forall>m. map_of TYPE_MAP (col_type col) = Some m \<longrightarrow>
          is_prefix m (sqlserver_to_mysql_type col)
          \<and> (m \<notin> set [''VARCHAR'', ''CHAR'', ''VARBINARY'', ''BINARY'', ''DECIMAL'']
               \<longrightarrow> sqlserver_to_mysql_type col = m))
   \<and> (\<forall>col'. col_type col' = col_type col \<and> char_len col' = char_len col
          \<and> num_prec col' = num_prec col \<and> num_scale col' = num_scale col
          \<longrightarrow> sqlserver_to_mysql_type col' = sqlserver_to_mysql_type col)"
  using type_of_unknown type_of_known type_of_plain type_depends_on
  by blast

theorem type_mapping_total_witness:
  "sqlserver_to_mysql_type
     \<lparr>col_name = ''shape'', col_type = ''geography'', char_len = None, num_prec = None,
      num_scale = None, nullable = True, is_identity = False, col_default = None\<rparr> = ''TEXT''
   \<and> sqlserver_to_mysql_type
     \<lparr>col_name = ''seen'', col_type = ''datetimeoffset'', char_len = None, num_prec = None,
      num_scale = None, nullable = True, is_identity = False, col_default = None\<rparr> = ''DATETIME''"
proof -
  have a: "map_of TYPE_MAP ''geography'' = None"
    by (simp add: TYPE_MAP_def)
  have b: "map_of TYPE_MAP ''datetimeoffset'' = Some ''DATETIME''"
    by (simp add: TYPE_MAP_def)
  have c: "''DATETIME'' \<notin> set [''VARCHAR'', ''CHAR'', ''VARBINARY'', ''BINARY'', ''DECIMAL'']"
    by simp
  show ?thesis
    using type_mapping_total
       [of "\<lparr>col_name = ''shape'', col_type = ''geography'', char_len = None, num_prec = None,
        num_scale = None, nullable = True, is_identity = False, col_default = None\<rparr>",
        THEN conjunct1]
      type_mapping_total
       [of "\<lparr>col_name = ''seen'', col_type = ''datetimeoffset'', char_len = None, num_prec = None,
        num_scale = None, nullable = True, is_identity = False, col_default = None\<rparr>",
        THEN conjunct2, THEN conjunct1, THEN spec, of "''DATETIME''"]
      a b c
    by simp
qed

text \<open>
  C9 as stated fails for the character and binary types that the table maps to a type
  without a length: a \<^verbatim>\<open>text\<close> column, for which the catalog declares the length
  2147483647, becomes \<^verbatim>\<open>LONGTEXT\<close>, and no length appears in the target type.
\<close>

theorem sized_type_parameters_counterexample:
  "sqlserver_to_mysql_type
     \<lparr>col_name = ''notes'', col_type = ''text'', char_len = Some 2147483647, num_prec = None,
      num_scale = None, nullable = True, is_identity = False, col_default = None\<rparr>
   = ''LONGTEXT''"
  by (simp add: sqlserver_to_mysql_type_def dict_get_def TYPE_MAP_def sized_types_def)

text \<open>
  C9, amended.  For the type names \<^verbatim>\<open>varchar\<close>, \<^verbatim>\<open>nvarchar\<close>, \<^verbatim>\<open>char\<close>, \<^verbatim>\<open>nchar\<close>, \<^verbatim>\<open>binary\<close> and
  \<^verbatim>\<open>varbinary\<close> the target type is the table's entry followed by a length in parentheses:
  the declared length when it is greater than 0, and 255 otherwise (so also for the \<open>-1\<close> of
  the \<^verbatim>\<open>max\<close> types).  \<^verbatim>\<open>text\<close> and \<^verbatim>\<open>ntext\<close> become \<^verbatim>\<open>LONGTEXT\<close> and \<^verbatim>\<open>image\<close> becomes
  \<^verbatim>\<open>LONGBLOB\<close>, without a length, whatever length is declared.  For \<^verbatim>\<open>decimal\<close> and \<^verbatim>\<open>numeric\<close>
  the target is \<^verbatim>\<open>DECIMAL(p,s)\<close> where \<open>p\<close> is the source precision when present and 18
  otherwise, and \<open>s\<close> is the source scale when present and 0 otherwise.  A precision of 0,
  which the catalog does not report for these types, is left out of the statement.
\<close>

theorem sized_type_parameters:
  "(col_type col \<in> set [''varchar'', ''nvarchar'', ''char'', ''nchar'', ''binary'', ''varbinary'']
      \<longrightarrow> sqlserver_to_mysql_type col =
            dict_get TYPE_MAP (col_type col) ''TEXT'' @ ''(''
            @ str_int (case char_len col of None \<Rightarrow> 255 | Some l \<Rightarrow> if 0 < l then l else 255)
            @ '')'')
   \<and> (col_type col \<in> set [''text'', ''ntext''] \<longrightarrow> sqlserver_to_mysql_type col = ''LONGTEXT'')
   \<and> (col_type col = ''image'' \<longrightarrow> sqlserver_to_mysql_type col = ''LONGBLOB'')
   \<and> (col_type col \<in> set [''decimal'', ''numeric''] \<and> num_prec col \<noteq> Some 0
      \<longrightarrow> sqlserver_to_mysql_type col =
            ''DECIMAL(''
            @ str_int (case num_prec col of None \<Rightarrow> 18 | Some p \<Rightarrow> p)
            @ '','' @ str_int (case num_scale col of None \<Rightarrow> 0 | Some s \<Rightarrow> s) @ '')'')"
proof -
  have sized: "col_type col \<in> set [''varchar'', ''nvarchar'', ''char'', ''nchar'', ''binary'', ''varbinary'']
      \<Longrightarrow> dict_get TYPE_MAP (col_type col) ''TEXT'' \<in> set sized_types"
    by (auto simp: dict_get_def TYPE_MAP_def sized_types_def)
  have dec: "col_type col \<in> set [''decimal'', ''numeric'']
      \<Longrightarrow> dict_get TYPE_MAP (col_type col) ''TEXT'' = ''DECIMAL''"
    by (auto simp: dict_get_def TYPE_MAP_def)
  have a: "col_type col \<in> set [''varchar'', ''nvarchar'', ''char'', ''nchar'', ''binary'', ''varbinary'']
      \<longrightarrow> sqlserver_to_mysql_type col =
            dict_get TYPE_MAP (col_type col) ''TEXT'' @ ''(''
            @ str_int (case char_len col of None \<Rightarrow> 255 | Some l \<Rightarrow> if 0 < l then l else 255)
            @ '')''"
  proof
    assume h: "col_type col \<in> set [''varchar'', ''nvarchar'', ''char'', ''nchar'', ''binary'', ''varbinary'']"
    show "sqlserver_to_mysql_type col =
            dict_get TYPE_MAP (col_type col) ''TEXT'' @ ''(''
            @ str_int (case char_len col of None \<Rightarrow> 255 | Some l \<Rightarrow> if 0 < l then l else 255)
            @ '')''"
      using sized [OF h]
      by (cases "char_len col") (auto simp: sqlserver_to_mysql_type_def Let_def)
  qed
  have t: "col_type col \<in> set [''text'', ''ntext''] \<longrightarrow> sqlserver_to_mysql_type col = ''LONGTEXT''"
  proof
    assume h: "col_type col \<in> set [''text'', ''ntext'']"
    then have "map_of TYPE_MAP (col_type col) = Some ''LONGTEXT''"
      by (auto simp: TYPE_MAP_def)
    then show "sqlserver_to_mysql_type col = ''LONGTEXT''"
      by (rule type_of_plain) simp
  qed
  have i: "col_type col = ''image'' \<longrightarrow> sqlserver_to_mysql_type col = ''LONGBLOB''"
  proof
    assume h: "col_type col = ''image''"
    then have "map_of TYPE_MAP (col_type col) = Some ''LONGBLOB''"
      by (simp add: TYPE_MAP_def)
    then show "sqlserver_to_mysql_type col = ''LONGBLOB''"
      by (rule type_of_plain) simp
  qed
  have b: "col_type col \<in> set [''decimal'', ''numeric''] \<and> num_prec col \<noteq> Some 0
      \<longrightarrow> sqlserver_to_mysql_type col =
            ''DECIMAL(''
            @ str_int (case num_prec col of None \<Rightarrow> 18 | Some p \<Rightarrow> p)
            @ '','' @ str_int (case num_scale col of None \<Rightarrow> 0 | Some s \<Rightarrow> s) @ '')''"
  proof
    assume h: "col_type col \<in> set [''decimal'', ''numeric''] \<and> num_prec col \<noteq> Some 0"
    have s: "int_or (num_scale col) 0 = (case num_scale col of None \<Rightarrow> 0 | Some s \<Rightarrow> s)"
      by (simp add: int_or_def split: option.splits)
    have p: "int_or (num_prec col) 18 = (case num_prec col of None \<Rightarrow> 18 | Some p \<Rightarrow> p)"
      using h by (simp add: int_or_def split: option.splits)
    show "sqlserver_to_mysql_type col =
            ''DECIMAL(''
            @ str_int (case num_prec col of None \<Rightarrow> 18 | Some p \<Rightarrow> p)
            @ '','' @ str_int (case num_scale col of None \<Rightarrow> 0 | Some s \<Rightarrow> s) @ '')''"
      using dec [OF conjunct1 [OF h]]
      by (simp add: sqlserver_to_mysql_type_def Let_def sized_types_def s p)
  qed
  from a t i b show ?thesis by blast
qed

theorem sized_type_parameters_witness:
  "sqlserver_to_mysql_type
     \<lparr>col_name = ''status'', col_type = ''varchar'', char_len = Some 20, num_prec = None,
      num_scale = None, nullable = True, is_identity = False, col_default = None\<rparr>
   = ''VARCHAR(20)''
   \<and> sqlserver_to_mysql_type
     \<lparr>col_name = ''notes'', col_type = ''nvarchar'', char_len = Some (- 1), num_prec = None,
      num_scale = None, nullable = True, is_identity = False, col_default = None\<rparr>
   = ''VARCHAR(255)''
   \<and> sqlserver_to_mysql_type
     \<lparr>col_name = ''picture'', col_type = ''image'', char_len = Some 2147483647, num_prec = None,
      num_scale = None, nullable = True, is_identity = False, col_default = None\<rparr>
   = ''LONGBLOB''
   \<and> sqlserver_to_mysql_type
     \<lparr>col_name = ''total'', col_type = ''decimal'', char_len = None, num_prec = Some 10,
      num_scale = Some 2, nullable = True, is_identity = False, col_default = None\<rparr>
   = ''DECIMAL(10,2)''
   \<and> sqlserver_to_mysql_type
     \<lparr>col_name = ''amount'', col_type = ''numeric'', char_len = None, num_prec = None,
      num_scale = None, nullable = True, is_identity = False, col_default = None\<rparr>
   = ''DECIMAL(18,0)''"
  using sized_type_parameters
     [of "\<lparr>col_name = ''status'', col_type = ''varchar'', char_len = Some 20, num_prec = None,
      num_scale = None, nullable = True, is_identity = False, col_default = None\<rparr>",
      THEN conjunct1]
    sized_type_parameters
     [of "\<lparr>col_name = ''notes'', col_type = ''nvarchar'', char_len = Some (- 1), num_prec = None,
      num_scale = None, nullable = True, is_identity = False, col_default = None\<rparr>",
      THEN conjunct1]
    sized_type_parameters
     [of "\<lparr>col_name = ''picture'', col_type = ''image'', char_len = Some 2147483647, num_prec = None,
      num_scale = None, nullable = True, is_identity = False, col_default = None\<rparr>",
      THEN conjunct2, THEN conjunct2, THEN conjunct1]
    sized_type_parameters
     [of "\<lparr>col_name = ''total'', col_type = ''decimal'', char_len = None, num_prec = Some 10,
      num_scale = Some 2, nullable = True, is_identity = False, col_default = None\<rparr>",
      THEN conjunct2, THEN conjunct2, THEN conjunct2]
    sized_type_parameters
     [of "\<lparr>col_name = ''amount'', col_type = ''numeric'', char_len = None, num_prec = None,
      num_scale = None, nullable = True, is_identity = False, col_default = None\<rparr>",
      THEN conjunct2, THEN conjunct2, THEN conjunct2]
  by (simp add: dict_get_def TYPE_MAP_def str_int_def str_nat.simps)


section \<open>Whole runs of the three transfer functions\<close>

lemma fold_reorder_step:
  "fold (reorder_step k) rows st =
     st\<lparr>bs_data := bs_data st @ map (reorder_row k) rows\<rparr>"
  by (induction rows arbitrary: st) (simp_all add: reorder_step_def)

lemma reorder_batch_data: "bs_data (reorder_batch k rows) = map (reorder_row k) rows"
  by (simp add: reorder_batch_def fold_reorder_step)

lemma reorder_batch_rows: "bs_rows (reorder_batch k rows) = rows"
  by (simp add: reorder_batch_def fold_reorder_step)

lemma update_only_run:
  assumes b: "0 < b" and pk: "pk_cols \<noteq> []"
    and upd: "filter (\<lambda>c. c \<notin> set pk_cols) upd_cols \<noteq> []"
  shows "update_only schema table pk_cols upd_cols b wc w =
     (let set_cols = filter (\<lambda>c. c \<notin> set pk_cols) upd_cols;
          q = key_select schema table (pk_cols @ set_cols) pk_cols wc;
          rows = src_answer w q
      in (Returned,
          w\<lparr>src_pending := [],
            src_log := src_log w @ [Query q]
                       @ map (\<lambda>c. Fetched (length c)) (chunks b rows) @ [Fetched 0],
            mysql_log := mysql_log w
                       @ batch_writes (update_statement table set_cols pk_cols)
                           (map (map (reorder_row (length pk_cols))) (chunks b rows)),
            stdout := stdout w @ progress_msgs 0 (chunks b rows) @ [Completed (length rows)]\<rparr>))"
proof -
  have len: "\<And>rows. length (bs_data (reorder_batch (length pk_cols) rows)) = length rows"
    by (simp add: reorder_batch_data)
  have bind: "(\<lambda>rows. bs_data (reorder_batch (length pk_cols) rows)) = map (reorder_row (length pk_cols))"
    by (rule ext) (simp add: reorder_batch_data)
  show ?thesis
    unfolding update_only_def Let_def
    using pk upd
    by (simp add: transfer_loop_eq [OF b len] sql_execute_def print_msg_def)
       (simp add: bind)
qed

lemma upsert_mode_run:
  assumes b: "0 < b" and pk: "pk_cols \<noteq> []"
  shows "upsert_mode schema table pk_cols upd_cols b wc w =
     (let non_pk_upd = filter (\<lambda>c. c \<notin> set pk_cols) upd_cols;
          insert_cols = pk_cols @ non_pk_upd;
          q = key_select schema table insert_cols pk_cols wc;
          rows = src_answer w q
      in (Returned,
          w\<lparr>src_pending := [],
            src_log := src_log w @ [Query q]
                       @ map (\<lambda>c. Fetched (length c)) (chunks b rows) @ [Fetched 0],
            mysql_log := mysql_log w
                       @ batch_writes (upsert_statement table insert_cols non_pk_upd) (chunks b rows),
            stdout := stdout w @ progress_msgs 0 (chunks b rows) @ [Completed (length rows)]\<rparr>))"
  unfolding upsert_mode_def Let_def
  using pk
  by (simp add: transfer_loop_tuples [OF b] sql_execute_def print_msg_def)

lemma copy_table_run:
  assumes b: "0 < b"
  shows "copy_table schema table b only_cols w =
     (let cols = copy_cols only_cols (src_columns w schema table);
          pk = copy_pk only_cols (src_pk w schema table);
          col_names = map col_name cols;
          q = copy_select schema table col_names pk;
          rows = src_answer w q;
          insert_sql = ''INSERT INTO '' @ backquote table @ '' ('' @ quote_ident_list col_names
                       @ '') VALUES ('' @ py_join '', '' (replicate (length col_names) ''%s'') @ '')''
      in w\<lparr>src_pending := [],
            src_log := src_log w @ [MetaColumns schema table, MetaPrimaryKey schema table, Query q]
                       @ map (\<lambda>c. Fetched (length c)) (chunks b rows) @ [Fetched 0],
            mysql_log := mysql_log w
                       @ [Execute (build_create_table_mysql table cols pk), Commit]
                       @ batch_writes insert_sql (chunks b rows),
            stdout := stdout w @ progress_msgs 0 (chunks b rows) @ [Completed (length rows)]\<rparr>)"
  unfolding copy_table_def Let_def
  by (simp add: transfer_loop_tuples [OF b] sql_execute_def print_msg_def mysql_op_def src_meta_def)

lemma py_join_nonempty:
  assumes "xs \<noteq> []" and "\<And>x. f x \<noteq> []"
  shows "py_join sep (map f xs) \<noteq> []"
proof (cases xs)
  case Nil
  with assms show ?thesis by simp
next
  case (Cons x ys)
  then show ?thesis using assms(2) by (cases ys) simp_all
qed

lemma values_assign_nonempty: "values_assign c \<noteq> []"
  by (simp add: values_assign_def backquote_def)

lemma upsert_statement_ignore:
  "upsert_statement table insert_cols [] =
     ''INSERT IGNORE INTO '' @ backquote table @ '' ('' @ py_join '', '' (map backquote insert_cols)
     @ '') VALUES ('' @ py_join '', '' (replicate (length insert_cols) ''%s'') @ '')''"
  by (simp add: upsert_statement_def)

lemma upsert_statement_update:
  assumes "non_pk_upd \<noteq> []"
  shows "upsert_statement table insert_cols non_pk_upd =
     ''INSERT INTO '' @ backquote table @ '' ('' @ py_join '', '' (map backquote insert_cols)
     @ '') VALUES ('' @ py_join '', '' (replicate (length insert_cols) ''%s'')
     @ '') ON DUPLICATE KEY UPDATE '' @ py_join '', '' (map values_assign non_pk_upd)"
  using py_join_nonempty [OF assms, of values_assign "'', ''"] values_assign_nonempty
  by (simp add: upsert_statement_def Let_def)

lemma copy_cols_names:
  "map col_name (copy_cols only_cols cols) =
     (if truthy_list only_cols then filter (\<lambda>n. n \<in> set (the only_cols)) (map col_name cols)
      else map col_name cols)"
  by (simp add: copy_cols_def filter_map comp_def)

lemma chunks_three_by_two: "chunks 2 [x, y, z] = [[x, y], [z]]"
  by (simp add: chunks.simps)



section \<open>Every row is transferred\<close>

lemma chunks_25000_explicit:
  assumes "length xs = 25000"
  shows "chunks 10000 xs = [take 10000 xs, take 10000 (drop 10000 xs), drop 20000 xs]"
proof -
  have a: "xs \<noteq> []" "drop 10000 xs \<noteq> []" "drop 10000 (drop 10000 xs) \<noteq> []"
    using assms by auto
  have b: "drop 10000 (drop 10000 (drop 10000 xs)) = []"
    using assms by simp
  have c: "take 10000 (drop 10000 (drop 10000 xs)) = drop 20000 xs"
    using assms by simp
  have "chunks 10000 xs =
        [take 10000 xs, take 10000 (drop 10000 xs), take 10000 (drop 10000 (drop 10000 xs))]"
    using a b by (simp add: chunks_step del: drop_drop)
  then show ?thesis unfolding c .
qed

text \<open>
  C1.  The loop of \<^verbatim>\<open>copy_table\<close> and \<^verbatim>\<open>upsert_mode\<close>, started on a cursor holding the rows
  \<open>src_pending w\<close> with a positive batch size \<open>b\<close>:
  every fetch but the last returns between 1 and \<open>b\<close> rows, the fetched pieces put together
  are the source rows, and the last fetch returns nothing;
  the target sees exactly one \<^verbatim>\<open>executemany\<close> and one \<^verbatim>\<open>commit\<close> for each non-empty
  fetch, in that order; the total returned is the number of source rows.
  With 25,000 rows and batches of 10,000 the batches have 10,000, 10,000 and 5,000 rows and
  the total is 25,000.

  The same holds of the two functions as a whole.  \<^verbatim>\<open>copy_table\<close> sends its three catalog and
  data queries, then fetches the rows that SQL Server answers to its SELECT in pieces of at
  most \<open>b\<close>, ending on an empty fetch; MySQL receives the CREATE TABLE and its commit, then one
  INSERT \<^verbatim>\<open>executemany\<close> and one commit for each piece and nothing else; the console shows
  the running total after each piece and the number of source rows at the end.  For 25,000
  source rows and \<open>b = 10,000\<close> that is three INSERT batches of 10,000, 10,000 and 5,000 rows
  and the closing count 25,000.  \<^verbatim>\<open>upsert_mode\<close> with a non-empty key does the same with its
  own SELECT and statement.
\<close>

theorem batch_loop_transfers_all_rows:
  assumes "0 < b"
  shows "(\<forall>c \<in> set (chunks b (src_pending w)). c \<noteq> [] \<and> length c \<le> b)
       \<and> concat (chunks b (src_pending w)) = src_pending w
       \<and> src_log (fst (transfer_loop tuples sql b w 0)) =
           src_log w @ map (\<lambda>c. Fetched (length c)) (chunks b (src_pending w)) @ [Fetched 0]
       \<and> mysql_log (fst (transfer_loop tuples sql b w 0)) =
           mysql_log w @ concat (map (\<lambda>c. [ExecuteMany sql c, Commit]) (chunks b (src_pending w)))
       \<and> snd (transfer_loop tuples sql b w 0) = length (src_pending w)
       \<and> (b = 10000 \<and> length (src_pending w) = 25000 \<longrightarrow>
            map length (chunks b (src_pending w)) = [10000, 10000, 5000]
            \<and> snd (transfer_loop tuples sql b w 0) = 25000)
       \<and> (let cols = copy_cols only_cols (src_columns w schema table);
               pk = copy_pk only_cols (src_pk w schema table);
               q = copy_select schema table (map col_name cols) pk;
               rows = src_answer w q;
               insert_sql = ''INSERT INTO '' @ backquote table @ '' (''
                            @ quote_ident_list (map col_name cols) @ '') VALUES (''
                            @ py_join '', '' (replicate (length (map col_name cols)) ''%s'') @ '')''
           in src_log (copy_table schema table b only_cols w) =
                src_log w @ [MetaColumns schema table, MetaPrimaryKey schema table, Query q]
                @ map (\<lambda>c. Fetched (length c)) (chunks b rows) @ [Fetched 0]
            \<and> mysql_log (copy_table schema table b only_cols w) =
                mysql_log w @ [Execute (build_create_table_mysql table cols pk), Commit]
                @ concat (map (\<lambda>c. [ExecuteMany insert_sql c, Commit]) (chunks b rows))
            \<and> stdout (copy_table schema table b only_cols w) =
                stdout w @ progress_msgs 0 (chunks b rows) @ [Completed (length rows)]
            \<and> (b = 10000 \<and> length rows = 25000 \<longrightarrow>
                 mysql_log (copy_table schema table b only_cols w) =
                   mysql_log w @
                   [Execute (build_create_table_mysql table cols pk), Commit,
                    ExecuteMany insert_sql (take 10000 rows), Commit,
                    ExecuteMany insert_sql (take 10000 (drop 10000 rows)), Commit,
                    ExecuteMany insert_sql (drop 20000 rows), Commit]
                 \<and> map length [take 10000 rows, take 10000 (drop 10000 rows), drop 20000 rows]
                     = [10000, 10000, 5000]
                 \<and> stdout (copy_table schema table b only_cols w) =
                     stdout w @ [Progress 10000, Progress 20000, Progress 25000, Completed 25000]))
       \<and> (pk_cols \<noteq> [] \<longrightarrow>
           (let non_pk_upd = filter (\<lambda>c. c \<notin> set pk_cols) upd_cols;
                insert_cols = pk_cols @ non_pk_upd;
                q = key_select schema table insert_cols pk_cols wc;
                rows = src_answer w q;
                statement = upsert_statement table insert_cols non_pk_upd
            in src_log (snd (upsert_mode schema table pk_cols upd_cols b wc w)) =
                 src_log w @ [Query q]
                 @ map (\<lambda>c. Fetched (length c)) (chunks b rows) @ [Fetched 0]
             \<and> mysql_log (snd (upsert_mode schema table pk_cols upd_cols b wc w)) =
                 mysql_log w
                 @ concat (map (\<lambda>c. [ExecuteMany statement c, Commit]) (chunks b rows))
             \<and> stdout (snd (upsert_mode schema table pk_cols upd_cols b wc w)) =
                 stdout w @ progress_msgs 0 (chunks b rows) @ [Completed (length rows)]))"
proof -
  have pieces: "\<forall>c \<in> set (chunks b (src_pending w)). c \<noteq> [] \<and> length c \<le> b"
    using chunks_bounds [OF assms] by blast
  have whole: "concat (chunks b (src_pending w)) = src_pending w"
    by (rule concat_chunks [OF assms])
  have fetches: "src_log (fst (transfer_loop tuples sql b w 0)) =
      src_log w @ map (\<lambda>c. Fetched (length c)) (chunks b (src_pending w)) @ [Fetched 0]"
    by (simp add: transfer_loop_tuples [OF assms])
  have writes: "mysql_log (fst (transfer_loop tuples sql b w 0)) =
      mysql_log w @ concat (map (\<lambda>c. [ExecuteMany sql c, Commit]) (chunks b (src_pending w)))"
    by (simp add: transfer_loop_tuples [OF assms] batch_writes_def)
  have count: "snd (transfer_loop tuples sql b w 0) = length (src_pending w)"
    by (simp add: transfer_loop_tuples [OF assms])
  have example: "b = 10000 \<and> length (src_pending w) = 25000 \<longrightarrow>
      map length (chunks b (src_pending w)) = [10000, 10000, 5000]
      \<and> snd (transfer_loop tuples sql b w 0) = 25000"
    using chunks_25000 count by auto
  define cols where "cols = copy_cols only_cols (src_columns w schema table)"
  define pk where "pk = copy_pk only_cols (src_pk w schema table)"
  define q where "q = copy_select schema table (map col_name cols) pk"
  define rows where "rows = src_answer w q"
  define insert_sql where "insert_sql = ''INSERT INTO '' @ backquote table @ '' (''
                            @ quote_ident_list (map col_name cols) @ '') VALUES (''
                            @ py_join '', '' (replicate (length (map col_name cols)) ''%s'') @ '')''"
  have run: "copy_table schema table b only_cols w =
       w\<lparr>src_pending := [],
         src_log := src_log w @ [MetaColumns schema table, MetaPrimaryKey schema table, Query q]
                    @ map (\<lambda>c. Fetched (length c)) (chunks b rows) @ [Fetched 0],
         mysql_log := mysql_log w @ [Execute (build_create_table_mysql table cols pk), Commit]
                    @ batch_writes insert_sql (chunks b rows),
         stdout := stdout w @ progress_msgs 0 (chunks b rows) @ [Completed (length rows)]\<rparr>"
    unfolding copy_table_run [OF assms] Let_def cols_def pk_def q_def rows_def insert_sql_def
    by simp
  have c1: "src_log (copy_table schema table b only_cols w) =
                src_log w @ [MetaColumns schema table, MetaPrimaryKey schema table, Query q]
                @ map (\<lambda>c. Fetched (length c)) (chunks b rows) @ [Fetched 0]"
    unfolding run by simp
  have c2: "mysql_log (copy_table schema table b only_cols w) =
                mysql_log w @ [Execute (build_create_table_mysql table cols pk), Commit]
                @ concat (map (\<lambda>c. [ExecuteMany insert_sql c, Commit]) (chunks b rows))"
    unfolding run by (simp add: batch_writes_def)
  have c3: "stdout (copy_table schema table b only_cols w) =
                stdout w @ progress_msgs 0 (chunks b rows) @ [Completed (length rows)]"
    unfolding run by simp
  have c4: "b = 10000 \<and> length rows = 25000 \<longrightarrow>
                 mysql_log (copy_table schema table b only_cols w) =
                   mysql_log w @
                   [Execute (build_create_table_mysql table cols pk), Commit,
                    ExecuteMany insert_sql (take 10000 rows), Commit,
                    ExecuteMany insert_sql (take 10000 (drop 10000 rows)), Commit,
                    ExecuteMany insert_sql (drop 20000 rows), Commit]
                 \<and> map length [take 10000 rows, take 10000 (drop 10000 rows), drop 20000 rows]
                     = [10000, 10000, 5000]
                 \<and> stdout (copy_table schema table b only_cols w) =
                     stdout w @ [Progress 10000, Progress 20000, Progress 25000, Completed 25000]"
  proof
    assume h: "b = 10000 \<and> length rows = 25000"
    then have ch: "chunks b rows = [take 10000 rows, take 10000 (drop 10000 rows), drop 20000 rows]"
      using chunks_25000_explicit by blast
    have l: "map length [take 10000 rows, take 10000 (drop 10000 rows), drop 20000 rows]
                     = [10000, 10000, 5000]"
      using h by simp
    have m: "mysql_log (copy_table schema table b only_cols w) =
                   mysql_log w @
                   [Execute (build_create_table_mysql table cols pk), Commit,
                    ExecuteMany insert_sql (take 10000 rows), Commit,
                    ExecuteMany insert_sql (take 10000 (drop 10000 rows)), Commit,
                    ExecuteMany insert_sql (drop 20000 rows), Commit]"
      unfolding c2 ch by simp
    have s: "stdout (copy_table schema table b only_cols w) =
                     stdout w @ [Progress 10000, Progress 20000, Progress 25000, Completed 25000]"
      unfolding c3 ch using h by simp
    from l m s show "mysql_log (copy_table schema table b only_cols w) =
                   mysql_log w @
                   [Execute (build_create_table_mysql table cols pk), Commit,
                    ExecuteMany insert_sql (take 10000 rows), Commit,
                    ExecuteMany insert_sql (take 10000 (drop 10000 rows)), Commit,
                    ExecuteMany insert_sql (drop 20000 rows), Commit]
                 \<and> map length [take 10000 rows, take 10000 (drop 10000 rows), drop 20000 rows]
                     = [10000, 10000, 5000]
                 \<and> stdout (copy_table schema table b only_cols w) =
                     stdout w @ [Progress 10000, Progress 20000, Progress 25000, Completed 25000]"
      by blast
  qed
  have copy: "let cols = copy_cols only_cols (src_columns w schema table);
               pk = copy_pk only_cols (src_pk w schema table);
               q = copy_select schema table (map col_name cols) pk;
               rows = src_answer w q;
               insert_sql = ''INSERT INTO '' @ backquote table @ '' (''
                            @ quote_ident_list (map col_name cols) @ '') VALUES (''
                            @ py_join '', '' (replicate (length (map col_name cols)) ''%s'') @ '')''
           in src_log (copy_table schema table b only_cols w) =
                src_log w @ [MetaColumns schema table, MetaPrimaryKey schema table, Query q]
                @ map (\<lambda>c. Fetched (length c)) (chunks b rows) @ [Fetched 0]
            \<and> mysql_log (copy_table schema table b only_cols w) =
                mysql_log w @ [Execute (build_create_table_mysql table cols pk), Commit]
                @ concat (map (\<lambda>c. [ExecuteMany insert_sql c, Commit]) (chunks b rows))
            \<and> stdout (copy_table schema table b only_cols w) =
                stdout w @ progress_msgs 0 (chunks b rows) @ [Completed (length rows)]
            \<and> (b = 10000 \<and> length rows = 25000 \<longrightarrow>
                 mysql_log (copy_table schema table b only_cols w) =
                   mysql_log w @
                   [Execute (build_create_table_mysql table cols pk), Commit,
                    ExecuteMany insert_sql (take 10000 rows), Commit,
                    ExecuteMany insert_sql (take 10000 (drop 10000 rows)), Commit,
                    ExecuteMany insert_sql (drop 20000 rows), Commit]
                 \<and> map length [take 10000 rows, take 10000 (drop 10000 rows), drop 20000 rows]
                     = [10000, 10000, 5000]
                 \<and> stdout (copy_table schema table b only_cols w) =
                     stdout w @ [Progress 10000, Progress 20000, Progress 25000, Completed 25000])"
    unfolding Let_def
    using c1 c2 c3 c4
    unfolding cols_def pk_def q_def rows_def insert_sql_def
    by blast
  have upsert: "pk_cols \<noteq> [] \<longrightarrow>
           (let non_pk_upd = filter (\<lambda>c. c \<notin> set pk_cols) upd_cols;
                insert_cols = pk_cols @ non_pk_upd;
                q = key_select schema table insert_cols pk_cols wc;
                rows = src_answer w q;
                statement = upsert_statement table insert_cols non_pk_upd
            in src_log (snd (upsert_mode schema table pk_cols upd_cols b wc w)) =
                 src_log w @ [Query q]
                 @ map (\<lambda>c. Fetched (length c)) (chunks b rows) @ [Fetched 0]
             \<and> mysql_log (snd (upsert_mode schema table pk_cols upd_cols b wc w)) =
                 mysql_log w
                 @ concat (map (\<lambda>c. [ExecuteMany statement c, Commit]) (chunks b rows))
             \<and> stdout (snd (upsert_mode schema table pk_cols upd_cols b wc w)) =
                 stdout w @ progress_msgs 0 (chunks b rows) @ [Completed (length rows)])"
    by (simp add: upsert_mode_run [OF assms] Let_def batch_writes_def)
  from pieces whole fetches writes count example copy upsert show ?thesis
    by blast
qed

theorem batch_loop_transfers_all_rows_witness:
  "(0::nat) < 10000
   \<and> map length (chunks 10000 (replicate 25000 [0::nat])) = [10000, 10000, 5000]
   \<and> snd (transfer_loop tuples ''INSERT'' 10000
            (empty_world\<lparr>src_pending := replicate 25000 [0::nat]\<rparr>) 0) = 25000
   \<and> mysql_log (copy_table ''dbo'' ''orders'' 10000 None
                   (orders_db\<lparr>src_answer := (\<lambda>q. replicate 25000 [''1'', ''open'', ''9.99''])\<rparr>))
       = [Execute (build_create_table_mysql ''orders'' orders_columns [''id'']), Commit,
          ExecuteMany (''INSERT INTO '' @ backquote ''orders'' @ '' ('' @ backquote ''id'' @ '', ''
                       @ backquote ''status'' @ '', '' @ backquote ''total''
                       @ '') VALUES (%s, %s, %s)'')
            (replicate 10000 [''1'', ''open'', ''9.99'']), Commit,
          ExecuteMany (''INSERT INTO '' @ backquote ''orders'' @ '' ('' @ backquote ''id'' @ '', ''
                       @ backquote ''status'' @ '', '' @ backquote ''total''
                       @ '') VALUES (%s, %s, %s)'')
            (replicate 10000 [''1'', ''open'', ''9.99'']), Commit,
          ExecuteMany (''INSERT INTO '' @ backquote ''orders'' @ '' ('' @ backquote ''id'' @ '', ''
                       @ backquote ''status'' @ '', '' @ backquote ''total''
                       @ '') VALUES (%s, %s, %s)'')
            (replicate 5000 [''1'', ''open'', ''9.99'']), Commit]
   \<and> stdout (copy_table ''dbo'' ''orders'' 10000 None
                (orders_db\<lparr>src_answer := (\<lambda>q. replicate 25000 [''1'', ''open'', ''9.99''])\<rparr>))
       = [Progress 10000, Progress 20000, Progress 25000, Completed 25000]
   \<and> mysql_log (snd (upsert_mode ''dbo'' ''orders'' [''id''] [''status''] 2 None orders_db))
       = [ExecuteMany (upsert_statement ''orders'' [''id'', ''status''] [''status''])
            [[''1'', ''open''], [''2'', ''paid'']], Commit,
          ExecuteMany (upsert_statement ''orders'' [''id'', ''status''] [''status''])
            [[''3'', ''void'']], Commit]"
proof -
  have b: "(0::nat) < 10000" by simp
  have b2: "(0::nat) < 2" by simp
  have loop: "map length (chunks 10000 (replicate 25000 [0::nat])) = [10000, 10000, 5000]
     \<and> snd (transfer_loop tuples ''INSERT'' 10000
              (empty_world\<lparr>src_pending := replicate 25000 [0::nat]\<rparr>) 0) = 25000"
    using batch_loop_transfers_all_rows
            [OF b, where w = "empty_world\<lparr>src_pending := replicate 25000 [0::nat]\<rparr>"
               and sql = "''INSERT''"]
    by simp
  have names: "map col_name orders_columns = [''id'', ''status'', ''total'']"
    by (simp add: orders_columns_def)
  note t = batch_loop_transfers_all_rows
            [OF b, where w = "orders_db\<lparr>src_answer := (\<lambda>q. replicate 25000 [''1'', ''open'', ''9.99''])\<rparr>"
               and only_cols = None and schema = "''dbo''" and table = "''orders''",
             THEN conjunct2, THEN conjunct2, THEN conjunct2, THEN conjunct2, THEN conjunct2,
             THEN conjunct2, THEN conjunct1, unfolded Let_def,
             THEN conjunct2, THEN conjunct2, THEN conjunct2]
  have copy: "mysql_log (copy_table ''dbo'' ''orders'' 10000 None
                   (orders_db\<lparr>src_answer := (\<lambda>q. replicate 25000 [''1'', ''open'', ''9.99''])\<rparr>))
       = [Execute (build_create_table_mysql ''orders'' orders_columns [''id'']), Commit,
          ExecuteMany (''INSERT INTO '' @ backquote ''orders'' @ '' ('' @ backquote ''id'' @ '', ''
                       @ backquote ''status'' @ '', '' @ backquote ''total''
                       @ '') VALUES (%s, %s, %s)'')
            (replicate 10000 [''1'', ''open'', ''9.99'']), Commit,
          ExecuteMany (''INSERT INTO '' @ backquote ''orders'' @ '' ('' @ backquote ''id'' @ '', ''
                       @ backquote ''status'' @ '', '' @ backquote ''total''
                       @ '') VALUES (%s, %s, %s)'')
            (replicate 10000 [''1'', ''open'', ''9.99'']), Commit,
          ExecuteMany (''INSERT INTO '' @ backquote ''orders'' @ '' ('' @ backquote ''id'' @ '', ''
                       @ backquote ''status'' @ '', '' @ backquote ''total''
                       @ '') VALUES (%s, %s, %s)'')
            (replicate 5000 [''1'', ''open'', ''9.99'']), Commit]
   \<and> stdout (copy_table ''dbo'' ''orders'' 10000 None
                (orders_db\<lparr>src_answer := (\<lambda>q. replicate 25000 [''1'', ''open'', ''9.99''])\<rparr>))
       = [Progress 10000, Progress 20000, Progress 25000, Completed 25000]"
    using t
    by (simp add: orders_db_def empty_world_def copy_cols_def copy_pk_def truthy_list_def
          orders_columns_def quote_ident_list_def)
  have upsert: "mysql_log (snd (upsert_mode ''dbo'' ''orders'' [''id''] [''status''] 2 None orders_db))
       = [ExecuteMany (upsert_statement ''orders'' [''id'', ''status''] [''status''])
            [[''1'', ''open''], [''2'', ''paid'']], Commit,
          ExecuteMany (upsert_statement ''orders'' [''id'', ''status''] [''status''])
            [[''3'', ''void'']], Commit]"
    using batch_loop_transfers_all_rows
            [OF b2, where w = orders_db and schema = "''dbo''" and table = "''orders''"
               and pk_cols = "[''id'']" and upd_cols = "[''status'']" and wc = None,
             THEN conjunct2, THEN conjunct2, THEN conjunct2, THEN conjunct2, THEN conjunct2,
             THEN conjunct2, THEN conjunct2]
    by (simp add: Let_def orders_db_def empty_world_def chunks_three_by_two)
  from b loop copy upsert show ?thesis by blast
qed


section \<open>The UPDATE statement\<close>

text \<open>
  C3.  \<^verbatim>\<open>update_only\<close>, called with a non-empty key list and any selection of columns to
  update, builds its SET clause from the selection without the key columns: the columns of
  the SET clause and the key columns are disjoint, whatever the selection holds.  When
  nothing is left to update, the function returns without touching either database.
  Otherwise every statement it sends to MySQL is the UPDATE whose SET clause lists exactly
  those non-key columns and whose WHERE predicate lists exactly the key columns.
\<close>

theorem update_set_clause_has_no_key_column:
  assumes "0 < b" and "pk_cols \<noteq> []"
  shows "set (filter (\<lambda>c. c \<notin> set pk_cols) upd_cols) \<inter> set pk_cols = {}
     \<and> (filter (\<lambda>c. c \<notin> set pk_cols) upd_cols = [] \<longrightarrow>
          update_only schema table pk_cols upd_cols b wc w = (Returned, w))
     \<and> (filter (\<lambda>c. c \<notin> set pk_cols) upd_cols \<noteq> [] \<longrightarrow>
          (\<exists>batches.
             mysql_log (snd (update_only schema table pk_cols upd_cols b wc w)) =
               mysql_log w @ batch_writes
                 (''UPDATE '' @ backquote table @ '' SET ''
                  @ py_join '', '' (map assign_placeholder (filter (\<lambda>c. c \<notin> set pk_cols) upd_cols))
                  @ '' WHERE '' @ py_join '' AND '' (map assign_placeholder pk_cols))
                 batches))"
proof -
  have disj: "set (filter (\<lambda>c. c \<notin> set pk_cols) upd_cols) \<inter> set pk_cols = {}"
    by auto
  have none: "filter (\<lambda>c. c \<notin> set pk_cols) upd_cols = [] \<longrightarrow>
          update_only schema table pk_cols upd_cols b wc w = (Returned, w)"
    using assms(2) by (simp add: update_only_def)
  have some: "filter (\<lambda>c. c \<notin> set pk_cols) upd_cols \<noteq> [] \<longrightarrow>
          (\<exists>batches.
             mysql_log (snd (update_only schema table pk_cols upd_cols b wc w)) =
               mysql_log w @ batch_writes
                 (''UPDATE '' @ backquote table @ '' SET ''
                  @ py_join '', '' (map assign_placeholder (filter (\<lambda>c. c \<notin> set pk_cols) upd_cols))
                  @ '' WHERE '' @ py_join '' AND '' (map assign_placeholder pk_cols))
                 batches)"
  proof
    assume ne: "filter (\<lambda>c. c \<notin> set pk_cols) upd_cols \<noteq> []"
    show "\<exists>batches.
             mysql_log (snd (update_only schema table pk_cols upd_cols b wc w)) =
               mysql_log w @ batch_writes
                 (''UPDATE '' @ backquote table @ '' SET ''
                  @ py_join '', '' (map assign_placeholder (filter (\<lambda>c. c \<notin> set pk_cols) upd_cols))
                  @ '' WHERE '' @ py_join '' AND '' (map assign_placeholder pk_cols))
                 batches"
      unfolding update_only_run [OF assms ne] Let_def update_statement_def
      by (rule exI) simp
  qed
  from disj none some show ?thesis by blast
qed


theorem update_set_clause_has_no_key_column_witness:
  "(0::nat) < 2 \<and> [''id''] \<noteq> []
   \<and> set [''status''] \<inter> set [''id''] = {}
   \<and> (\<exists>batches.
        mysql_log (snd (update_only ''dbo'' ''orders'' [''id''] [''id'', ''status''] 2 None orders_db)) =
          batch_writes
            (''UPDATE '' @ backquote ''orders'' @ '' SET '' @ backquote ''status'' @ ''=%s''
             @ '' WHERE '' @ backquote ''id'' @ ''=%s'')
            batches)"
  using update_set_clause_has_no_key_column
          [of 2 "[''id'']" "[''id'', ''status'']" "''dbo''" "''orders''" None orders_db]
  by (simp add: orders_db_def empty_world_def assign_placeholder_def)

text \<open>
  C8.  In \<^verbatim>\<open>update_only\<close> a fetched row that is the key values followed by the values of the
  columns to update is bound as the update values followed by the key values.  The list
  \<^verbatim>\<open>data\<close> built for a batch holds exactly these reordered rows, in order, and the batch
  \<^verbatim>\<open>rows\<close> itself is the same after the loop over it.  Every \<^verbatim>\<open>executemany\<close> of a run
  receives the reordered rows of its batch.
\<close>

theorem update_bind_order:
  assumes "0 < b" and "pk_cols \<noteq> []" and "filter (\<lambda>c. c \<notin> set pk_cols) upd_cols \<noteq> []"
  shows "(\<forall>pk_vals col_vals. length pk_vals = length pk_cols \<longrightarrow>
            reorder_row (length pk_cols) (pk_vals @ col_vals) = col_vals @ pk_vals)
     \<and> bs_data (reorder_batch (length pk_cols) rows) = map (reorder_row (length pk_cols)) rows
     \<and> bs_rows (reorder_batch (length pk_cols) rows) = rows
     \<and> mysql_log (snd (update_only schema table pk_cols upd_cols b wc w)) =
         mysql_log w
         @ concat (map (\<lambda>batch. [ExecuteMany
                                   (update_statement table
                                      (filter (\<lambda>c. c \<notin> set pk_cols) upd_cols) pk_cols)
                                   (map (reorder_row (length pk_cols)) batch),
                                 Commit])
                     (chunks b (src_answer w
                        (key_select schema table
                           (pk_cols @ filter (\<lambda>c. c \<notin> set pk_cols) upd_cols) pk_cols wc))))"
proof -
  have row: "\<forall>pk_vals col_vals. length pk_vals = length pk_cols \<longrightarrow>
            reorder_row (length pk_cols) (pk_vals @ col_vals) = col_vals @ pk_vals"
    by (simp add: reorder_row_def)
  have run: "mysql_log (snd (update_only schema table pk_cols upd_cols b wc w)) =
         mysql_log w
         @ concat (map (\<lambda>batch. [ExecuteMany
                                   (update_statement table
                                      (filter (\<lambda>c. c \<notin> set pk_cols) upd_cols) pk_cols)
                                   (map (reorder_row (length pk_cols)) batch),
                                 Commit])
                     (chunks b (src_answer w
                        (key_select schema table
                           (pk_cols @ filter (\<lambda>c. c \<notin> set pk_cols) upd_cols) pk_cols wc))))"
    unfolding update_only_run [OF assms] Let_def
    by (simp add: batch_writes_def comp_def)
  from row run show ?thesis
    by (simp add: reorder_batch_data reorder_batch_rows)
qed

theorem update_bind_order_witness:
  "(0::nat) < 2 \<and> [''id''] \<noteq> [] \<and> filter (\<lambda>c. c \<notin> set [''id'']) [''status''] \<noteq> []
   \<and> reorder_row (length [''id'']) ([''1''] @ [''open'']) = [''open''] @ [''1'']
   \<and> bs_data (reorder_batch (length [''id'']) [[''1'', ''open''], [''2'', ''paid'']])
       = [[''open'', ''1''], [''paid'', ''2'']]
   \<and> bs_rows (reorder_batch (length [''id'']) [[''1'', ''open''], [''2'', ''paid'']])
       = [[''1'', ''open''], [''2'', ''paid'']]
   \<and> mysql_log (snd (update_only ''dbo'' ''orders'' [''id''] [''status''] 2 None orders_db)) =
       [ExecuteMany (update_statement ''orders'' [''status''] [''id''])
          [[''open'', ''1''], [''paid'', ''2'']],
        Commit,
        ExecuteMany (update_statement ''orders'' [''status''] [''id'']) [[''void'', ''3'']],
        Commit]"
proof -
  have h: "(0::nat) < 2" "[''id''] \<noteq> []" "filter (\<lambda>c. c \<notin> set [''id'']) [''status''] \<noteq> []"
    by simp_all
  note t = update_bind_order
             [OF h, of "[[''1'', ''open''], [''2'', ''paid'']]" "''dbo''" "''orders''" None orders_db]
  have a: "reorder_row (length [''id'']) ([''1''] @ [''open'']) = [''open''] @ [''1'']"
    using t [THEN conjunct1, THEN spec, of "[''1'']", THEN spec, of "[''open'']"] by simp
  have b: "bs_data (reorder_batch (length [''id'']) [[''1'', ''open''], [''2'', ''paid'']])
       = [[''open'', ''1''], [''paid'', ''2'']]
   \<and> bs_rows (reorder_batch (length [''id'']) [[''1'', ''open''], [''2'', ''paid'']])
       = [[''1'', ''open''], [''2'', ''paid'']]
   \<and> mysql_log (snd (update_only ''dbo'' ''orders'' [''id''] [''status''] 2 None orders_db)) =
       [ExecuteMany (update_statement ''orders'' [''status''] [''id''])
          [[''open'', ''1''], [''paid'', ''2'']],
        Commit,
        ExecuteMany (update_statement ''orders'' [''status''] [''id'']) [[''void'', ''3'']],
        Commit]"
    using t [THEN conjunct2]
    by (simp add: orders_db_def empty_world_def chunks_three_by_two reorder_row_def)
  from h a b show ?thesis by blast
qed


section \<open>The upsert statement\<close>

text \<open>
  C4.  \<^verbatim>\<open>upsert_mode\<close>, called with a non-empty key list, returns normally.  When the
  selection holds no column outside the key, what it sends to MySQL is, for each batch of
  source rows, \<^verbatim>\<open>INSERT IGNORE INTO\<close> over the key columns and a commit; when some non-key
  column is selected, it is, for each batch, \<^verbatim>\<open>INSERT INTO ... ON DUPLICATE KEY UPDATE\<close> over
  the key columns followed by the selected non-key columns, whose update list is exactly
  the selected non-key columns, and a commit.
\<close>

theorem upsert_statement_choice:
  assumes "0 < b" and "pk_cols \<noteq> []"
  shows "fst (upsert_mode schema table pk_cols upd_cols b wc w) = Returned
     \<and> (filter (\<lambda>c. c \<notin> set pk_cols) upd_cols = [] \<longrightarrow>
          mysql_log (snd (upsert_mode schema table pk_cols upd_cols b wc w)) =
            mysql_log w @ batch_writes
              (''INSERT IGNORE INTO '' @ backquote table @ '' (''
               @ py_join '', '' (map backquote pk_cols) @ '') VALUES (''
               @ py_join '', '' (replicate (length pk_cols) ''%s'') @ '')'')
              (chunks b (src_answer w (key_select schema table pk_cols pk_cols wc))))
     \<and> (filter (\<lambda>c. c \<notin> set pk_cols) upd_cols \<noteq> [] \<longrightarrow>
          mysql_log (snd (upsert_mode schema table pk_cols upd_cols b wc w)) =
            mysql_log w @ batch_writes
              (''INSERT INTO '' @ backquote table @ '' (''
               @ py_join '', '' (map backquote (pk_cols @ filter (\<lambda>c. c \<notin> set pk_cols) upd_cols))
               @ '') VALUES (''
               @ py_join '', ''
                   (replicate (length (pk_cols @ filter (\<lambda>c. c \<notin> set pk_cols) upd_cols)) ''%s'')
               @ '') ON DUPLICATE KEY UPDATE ''
               @ py_join '', '' (map values_assign (filter (\<lambda>c. c \<notin> set pk_cols) upd_cols)))
              (chunks b (src_answer w
                 (key_select schema table
                    (pk_cols @ filter (\<lambda>c. c \<notin> set pk_cols) upd_cols) pk_cols wc))))"
proof -
  have ret: "fst (upsert_mode schema table pk_cols upd_cols b wc w) = Returned"
    by (simp add: upsert_mode_run [OF assms] Let_def)
  have ign: "filter (\<lambda>c. c \<notin> set pk_cols) upd_cols = [] \<longrightarrow>
          mysql_log (snd (upsert_mode schema table pk_cols upd_cols b wc w)) =
            mysql_log w @ batch_writes
              (''INSERT IGNORE INTO '' @ backquote table @ '' (''
               @ py_join '', '' (map backquote pk_cols) @ '') VALUES (''
               @ py_join '', '' (replicate (length pk_cols) ''%s'') @ '')'')
              (chunks b (src_answer w (key_select schema table pk_cols pk_cols wc)))"
    by (simp add: upsert_mode_run [OF assms] Let_def upsert_statement_ignore)
  have upd: "filter (\<lambda>c. c \<notin> set pk_cols) upd_cols \<noteq> [] \<longrightarrow>
          mysql_log (snd (upsert_mode schema table pk_cols upd_cols b wc w)) =
            mysql_log w @ batch_writes
              (''INSERT INTO '' @ backquote table @ '' (''
               @ py_join '', '' (map backquote (pk_cols @ filter (\<lambda>c. c \<notin> set pk_cols) upd_cols))
               @ '') VALUES (''
               @ py_join '', ''
                   (replicate (length (pk_cols @ filter (\<lambda>c. c \<notin> set pk_cols) upd_cols)) ''%s'')
               @ '') ON DUPLICATE KEY UPDATE ''
               @ py_join '', '' (map values_assign (filter (\<lambda>c. c \<notin> set pk_cols) upd_cols)))
              (chunks b (src_answer w
                 (key_select schema table
                    (pk_cols @ filter (\<lambda>c. c \<notin> set pk_cols) upd_cols) pk_cols wc)))"
  proof
    assume ne: "filter (\<lambda>c. c \<notin> set pk_cols) upd_cols \<noteq> []"
    show "mysql_log (snd (upsert_mode schema table pk_cols upd_cols b wc w)) =
            mysql_log w @ batch_writes
              (''INSERT INTO '' @ backquote table @ '' (''
               @ py_join '', '' (map backquote (pk_cols @ filter (\<lambda>c. c \<notin> set pk_cols) upd_cols))
               @ '') VALUES (''
               @ py_join '', ''
                   (replicate (length (pk_cols @ filter (\<lambda>c. c \<notin> set pk_cols) upd_cols)) ''%s'')
               @ '') ON DUPLICATE KEY UPDATE ''
               @ py_join '', '' (map values_assign (filter (\<lambda>c. c \<notin> set pk_cols) upd_cols)))
              (chunks b (src_answer w
                 (key_select schema table
                    (pk_cols @ filter (\<lambda>c. c \<notin> set pk_cols) upd_cols) pk_cols wc)))"
      unfolding upsert_mode_run [OF assms] Let_def upsert_statement_update [OF ne]
      by simp
  qed
  from ret ign upd show ?thesis by blast
qed

theorem upsert_statement_choice_witness:
  "(0::nat) < 2 \<and> [''id''] \<noteq> []
   \<and> fst (upsert_mode ''dbo'' ''orders'' [''id''] [''id''] 2 None orders_db) = Returned
   \<and> mysql_log (snd (upsert_mode ''dbo'' ''orders'' [''id''] [''id''] 2 None orders_db)) =
       [ExecuteMany (''INSERT IGNORE INTO '' @ backquote ''orders'' @ '' ('' @ backquote ''id''
                     @ '') VALUES (%s)'')
          [[''1'', ''open''], [''2'', ''paid'']],
        Commit,
        ExecuteMany (''INSERT IGNORE INTO '' @ backquote ''orders'' @ '' ('' @ backquote ''id''
                     @ '') VALUES (%s)'')
          [[''3'', ''void'']],
        Commit]
   \<and> mysql_log (snd (upsert_mode ''dbo'' ''orders'' [''id''] [''id'', ''status''] 2 None orders_db)) =
       [ExecuteMany (''INSERT INTO '' @ backquote ''orders'' @ '' ('' @ backquote ''id'' @ '', ''
                     @ backquote ''status'' @ '') VALUES (%s, %s) ON DUPLICATE KEY UPDATE ''
                     @ backquote ''status'' @ ''=VALUES('' @ backquote ''status'' @ '')'')
          [[''1'', ''open''], [''2'', ''paid'']],
        Commit,
        ExecuteMany (''INSERT INTO '' @ backquote ''orders'' @ '' ('' @ backquote ''id'' @ '', ''
                     @ backquote ''status'' @ '') VALUES (%s, %s) ON DUPLICATE KEY UPDATE ''
                     @ backquote ''status'' @ ''=VALUES('' @ backquote ''status'' @ '')'')
          [[''3'', ''void'']],
        Commit]"
  using upsert_statement_choice [of 2 "[''id'']" "''dbo''" "''orders''" "[''id'']" None orders_db]
        upsert_statement_choice
          [of 2 "[''id'']" "''dbo''" "''orders''" "[''id'', ''status'']" None orders_db]
  by (simp add: orders_db_def empty_world_def values_assign_def chunks_three_by_two
        batch_writes_def)


section \<open>The columns fetched from the source\<close>

text \<open>
  C5 as stated fails for \<^verbatim>\<open>copy_table\<close>: with a selection that omits the key column
  \<^verbatim>\<open>id\<close>, the SELECT sent to SQL Server asks for the selected column only (and, the key
  being filtered as well, carries no ORDER BY).
\<close>

theorem fetched_columns_counterexample:
  "src_log (copy_table ''dbo'' ''orders'' 10000 (Some [''status''])
              (orders_db\<lparr>src_answer := (\<lambda>q. [])\<rparr>)) =
     [MetaColumns ''dbo'' ''orders'', MetaPrimaryKey ''dbo'' ''orders'',
      Query ''SELECT [status] FROM [dbo].[orders];'', Fetched 0]"
proof -
  have b: "(0::nat) < 10000" by simp
  show ?thesis
    by (simp add: copy_table_run [OF b] Let_def orders_db_def empty_world_def orders_columns_def
          copy_cols_def copy_pk_def truthy_list_def copy_select_def bracket_def)
qed

text \<open>
  C5, amended.  \<^verbatim>\<open>update_only\<close>, when its key list is not empty and the selection holds a
  column outside the key, fetches the key columns followed by the selected columns that
  are not key columns; as a set this is the key columns united with the selection, so a key
  column that the selection omits is still fetched.  When every selected column is a key
  column it returns without any query, and with an empty key list it exits with status 1
  without any query.
  \<^verbatim>\<open>copy_table\<close> fetches the catalog's columns restricted to the selection, in catalog order,
  or all of them when no selection (or an empty one) is given; the primary key it uses is
  restricted to the selection in the same way, so a key column that a non-empty selection
  omits is neither fetched nor part of the key.
\<close>

theorem fetched_columns:
  assumes "0 < b"
  shows "(pk_cols = [] \<longrightarrow>
            update_only schema table pk_cols upd_cols b wc w = (SysExit 1, w))
     \<and> (pk_cols \<noteq> [] \<and> filter (\<lambda>c. c \<notin> set pk_cols) upd_cols = [] \<longrightarrow>
            update_only schema table pk_cols upd_cols b wc w = (Returned, w))
     \<and> (pk_cols \<noteq> [] \<and> filter (\<lambda>c. c \<notin> set pk_cols) upd_cols \<noteq> [] \<longrightarrow>
            set (pk_cols @ filter (\<lambda>c. c \<notin> set pk_cols) upd_cols) = set pk_cols \<union> set upd_cols
          \<and> src_log (snd (update_only schema table pk_cols upd_cols b wc w)) =
              src_log w
              @ [Query (key_select schema table
                          (pk_cols @ filter (\<lambda>c. c \<notin> set pk_cols) upd_cols) pk_cols wc)]
              @ map (\<lambda>c. Fetched (length c))
                  (chunks b (src_answer w
                     (key_select schema table
                        (pk_cols @ filter (\<lambda>c. c \<notin> set pk_cols) upd_cols) pk_cols wc)))
              @ [Fetched 0])
     \<and> src_log (copy_table schema table b only_cols w) =
           src_log w
           @ [MetaColumns schema table, MetaPrimaryKey schema table,
              Query (copy_select schema table
                       (map col_name (copy_cols only_cols (src_columns w schema table)))
                       (copy_pk only_cols (src_pk w schema table)))]
           @ map (\<lambda>c. Fetched (length c))
               (chunks b (src_answer w
                  (copy_select schema table
                     (map col_name (copy_cols only_cols (src_columns w schema table)))
                     (copy_pk only_cols (src_pk w schema table)))))
           @ [Fetched 0]
     \<and> map col_name (copy_cols only_cols (src_columns w schema table)) =
           (case only_cols of
              None \<Rightarrow> map col_name (src_columns w schema table)
            | Some sel \<Rightarrow>
                if sel = [] then map col_name (src_columns w schema table)
                else filter (\<lambda>n. n \<in> set sel) (map col_name (src_columns w schema table)))
     \<and> copy_pk only_cols (src_pk w schema table) =
           (case only_cols of
              None \<Rightarrow> src_pk w schema table
            | Some sel \<Rightarrow>
                if sel = [] then src_pk w schema table
                else filter (\<lambda>k. k \<in> set sel) (src_pk w schema table))
     \<and> (\<forall>sel k. only_cols = Some sel \<and> sel \<noteq> [] \<and> k \<notin> set sel \<longrightarrow>
            k \<notin> set (map col_name (copy_cols only_cols (src_columns w schema table)))
          \<and> k \<notin> set (copy_pk only_cols (src_pk w schema table)))"
proof -
  have nokey: "pk_cols = [] \<longrightarrow>
            update_only schema table pk_cols upd_cols b wc w = (SysExit 1, w)"
    by (simp add: update_only_def)
  have allkeys: "pk_cols \<noteq> [] \<and> filter (\<lambda>c. c \<notin> set pk_cols) upd_cols = [] \<longrightarrow>
            update_only schema table pk_cols upd_cols b wc w = (Returned, w)"
    by (simp add: update_only_def)
  have upd: "pk_cols \<noteq> [] \<and> filter (\<lambda>c. c \<notin> set pk_cols) upd_cols \<noteq> [] \<longrightarrow>
            set (pk_cols @ filter (\<lambda>c. c \<notin> set pk_cols) upd_cols) = set pk_cols \<union> set upd_cols
          \<and> src_log (snd (update_only schema table pk_cols upd_cols b wc w)) =
              src_log w
              @ [Query (key_select schema table
                          (pk_cols @ filter (\<lambda>c. c \<notin> set pk_cols) upd_cols) pk_cols wc)]
              @ map (\<lambda>c. Fetched (length c))
                  (chunks b (src_answer w
                     (key_select schema table
                        (pk_cols @ filter (\<lambda>c. c \<notin> set pk_cols) upd_cols) pk_cols wc)))
              @ [Fetched 0]"
  proof
    assume h: "pk_cols \<noteq> [] \<and> filter (\<lambda>c. c \<notin> set pk_cols) upd_cols \<noteq> []"
    have s: "set (pk_cols @ filter (\<lambda>c. c \<notin> set pk_cols) upd_cols) = set pk_cols \<union> set upd_cols"
      by auto
    have l: "src_log (snd (update_only schema table pk_cols upd_cols b wc w)) =
              src_log w
              @ [Query (key_select schema table
                          (pk_cols @ filter (\<lambda>c. c \<notin> set pk_cols) upd_cols) pk_cols wc)]
              @ map (\<lambda>c. Fetched (length c))
                  (chunks b (src_answer w
                     (key_select schema table
                        (pk_cols @ filter (\<lambda>c. c \<notin> set pk_cols) upd_cols) pk_cols wc)))
              @ [Fetched 0]"
      unfolding update_only_run [OF assms conjunct1 [OF h] conjunct2 [OF h]] Let_def
      by simp
    from s l show "set (pk_cols @ filter (\<lambda>c. c \<notin> set pk_cols) upd_cols) = set pk_cols \<union> set upd_cols
          \<and> src_log (snd (update_only schema table pk_cols upd_cols b wc w)) =
              src_log w
              @ [Query (key_select schema table
                          (pk_cols @ filter (\<lambda>c. c \<notin> set pk_cols) upd_cols) pk_cols wc)]
              @ map (\<lambda>c. Fetched (length c))
                  (chunks b (src_answer w
                     (key_select schema table
                        (pk_cols @ filter (\<lambda>c. c \<notin> set pk_cols) upd_cols) pk_cols wc)))
              @ [Fetched 0]" by blast
  qed
  have cp: "src_log (copy_table schema table b only_cols w) =
           src_log w
           @ [MetaColumns schema table, MetaPrimaryKey schema table,
              Query (copy_select schema table
                       (map col_name (copy_cols only_cols (src_columns w schema table)))
                       (copy_pk only_cols (src_pk w schema table)))]
           @ map (\<lambda>c. Fetched (length c))
               (chunks b (src_answer w
                  (copy_select schema table
                     (map col_name (copy_cols only_cols (src_columns w schema table)))
                     (copy_pk only_cols (src_pk w schema table)))))
           @ [Fetched 0]"
    unfolding copy_table_run [OF assms] Let_def
    by simp
  have names: "map col_name (copy_cols only_cols (src_columns w schema table)) =
           (case only_cols of
              None \<Rightarrow> map col_name (src_columns w schema table)
            | Some sel \<Rightarrow>
                if sel = [] then map col_name (src_columns w schema table)
                else filter (\<lambda>n. n \<in> set sel) (map col_name (src_columns w schema table)))"
    by (simp add: copy_cols_names truthy_list_def split: option.splits)
  have keys: "copy_pk only_cols (src_pk w schema table) =
           (case only_cols of
              None \<Rightarrow> src_pk w schema table
            | Some sel \<Rightarrow>
                if sel = [] then src_pk w schema table
                else filter (\<lambda>k. k \<in> set sel) (src_pk w schema table))"
    by (simp add: copy_pk_def truthy_list_def split: option.splits)
  have omitted: "\<forall>sel k. only_cols = Some sel \<and> sel \<noteq> [] \<and> k \<notin> set sel \<longrightarrow>
            k \<notin> set (map col_name (copy_cols only_cols (src_columns w schema table)))
          \<and> k \<notin> set (copy_pk only_cols (src_pk w schema table))"
    unfolding names keys by auto
  from nokey allkeys upd cp names keys omitted show ?thesis by blast
qed

theorem fetched_columns_witness:
  "(0::nat) < 2
   \<and> src_log (snd (update_only ''dbo'' ''orders'' [''id''] [''status''] 2 None orders_db)) =
       [Query ''SELECT [id], [status] FROM [dbo].[orders] ORDER BY [id];'',
        Fetched 2, Fetched 1, Fetched 0]
   \<and> update_only ''dbo'' ''orders'' [''id'', ''status''] [''status''] 2 None orders_db
       = (Returned, orders_db)
   \<and> src_log (copy_table ''dbo'' ''orders'' 2 (Some [''total'', ''id'']) orders_db) =
       [MetaColumns ''dbo'' ''orders'', MetaPrimaryKey ''dbo'' ''orders'',
        Query ''SELECT [id], [total] FROM [dbo].[orders] ORDER BY [id];'',
        Fetched 2, Fetched 1, Fetched 0]
   \<and> ''id'' \<notin> set (map col_name (copy_cols (Some [''status'']) (src_columns orders_db ''dbo'' ''orders'')))"
proof -
  have b: "(0::nat) < 2" by simp
  note t = fetched_columns [OF b, where w = orders_db and schema = "''dbo''" and table = "''orders''"
                              and wc = None]
  have sel: "key_select ''dbo'' ''orders'' [''id'', ''status''] [''id''] None
               = ''SELECT [id], [status] FROM [dbo].[orders] ORDER BY [id];''"
    by (simp add: key_select_def bracket_def where_sql_def truthy_str_def)
  have cps: "copy_select ''dbo'' ''orders'' [''id'', ''total''] [''id'']
               = ''SELECT [id], [total] FROM [dbo].[orders] ORDER BY [id];''"
    by (simp add: copy_select_def bracket_def)
  have u: "src_log (snd (update_only ''dbo'' ''orders'' [''id''] [''status''] 2 None orders_db)) =
       [Query ''SELECT [id], [status] FROM [dbo].[orders] ORDER BY [id];'',
        Fetched 2, Fetched 1, Fetched 0]"
    using t [where pk_cols = "[''id'']" and upd_cols = "[''status'']",
             THEN conjunct2, THEN conjunct2, THEN conjunct1] sel
    by (simp add: orders_db_def empty_world_def chunks_three_by_two)
  have n: "update_only ''dbo'' ''orders'' [''id'', ''status''] [''status''] 2 None orders_db
       = (Returned, orders_db)"
    using t [where pk_cols = "[''id'', ''status'']" and upd_cols = "[''status'']",
             THEN conjunct2, THEN conjunct1]
    by simp
  have c: "src_log (copy_table ''dbo'' ''orders'' 2 (Some [''total'', ''id'']) orders_db) =
       [MetaColumns ''dbo'' ''orders'', MetaPrimaryKey ''dbo'' ''orders'',
        Query ''SELECT [id], [total] FROM [dbo].[orders] ORDER BY [id];'',
        Fetched 2, Fetched 1, Fetched 0]"
    using t [where only_cols = "Some [''total'', ''id'']",
             THEN conjunct2, THEN conjunct2, THEN conjunct2, THEN conjunct1] cps
    by (simp add: orders_db_def empty_world_def orders_columns_def copy_cols_def copy_pk_def
          truthy_list_def chunks_three_by_two)
  have o: "''id'' \<notin> set (map col_name (copy_cols (Some [''status'']) (src_columns orders_db ''dbo'' ''orders'')))"
    using t [where only_cols = "Some [''status'']",
             THEN conjunct2, THEN conjunct2, THEN conjunct2, THEN conjunct2, THEN conjunct2,
             THEN conjunct2, THEN spec, of "[''status'']", THEN spec, of "''id''"]
    by simp
  from b u n c o show ?thesis by blast
qed


section \<open>UPDATE mode without a primary key\<close>

lemma update_only_no_key: "update_only schema table [] upd_cols b wc w = (SysExit 1, w)"
  by (simp add: update_only_def)

lemma main_update_no_key:
  assumes m: "a_mode a = UPDATE" and k: "src_pk w (a_schema a) (a_src_table a) = []"
  shows "main a w =
     (if src_tables w (a_schema a) = []
      then (SysExit 0, w\<lparr>src_log := src_log w @ [MetaTables (a_schema a)]\<rparr>)
      else if a_src_table a = [] \<or> a_src_table a \<notin> set (src_tables w (a_schema a))
      then (SysExit 1, w\<lparr>src_log := src_log w @ [MetaTables (a_schema a)]\<rparr>)
      else (case choose_columns_interactive
                   (safe_cols (src_columns w (a_schema a) (a_src_table a))) (a_columns a) of
              Inl e \<Rightarrow>
                (e, w\<lparr>src_log := src_log w @ [MetaTables (a_schema a),
                                              MetaColumns (a_schema a) (a_src_table a),
                                              MetaPrimaryKey (a_schema a) (a_src_table a)]\<rparr>)
            | Inr upd_cols \<Rightarrow>
                (SysExit (if a_continue a then 1 else 0),
                 w\<lparr>src_log := src_log w @ [MetaTables (a_schema a),
                                           MetaColumns (a_schema a) (a_src_table a),
                                           MetaPrimaryKey (a_schema a) (a_src_table a)],
                   mysql_log := mysql_log w @ [MetaMysqlPk (a_mysql_db a) (a_mysql_table a)]\<rparr>)))"
  using m k
  by (simp add: main_def Let_def src_meta_def mysql_op_def split: sum.splits)

lemma choose_columns_exit:
  "choose_columns_interactive cols sel = Inl e \<Longrightarrow> e = SysExit 1"
  by (simp add: choose_columns_interactive_def Let_def split: option.splits if_splits)

lemma safe_cols_orders: "safe_cols orders_columns = [''id'', ''status'', ''total'']"
  by (simp add: safe_cols_def orders_columns_def)

lemma choose_status:
  "choose_columns_interactive [''id'', ''status'', ''total''] (Some [''status'']) = Inr [''status'']"
  by (simp add: choose_columns_interactive_def)

text \<open>
  C7 as stated fails in \<^verbatim>\<open>main\<close>: the primary-key metadata query on the MySQL side
  (\<^verbatim>\<open>fetch_mysql_pk_columns\<close>) runs for both modes, before the check that ends the run with
  status 1.
\<close>

theorem update_without_key_counterexample:
  "fst (main no_key_request keyless_db) = SysExit 1
   \<and> mysql_log (snd (main no_key_request keyless_db)) = [MetaMysqlPk ''shop'' ''orders'']"
  by (simp add: main_def Let_def no_key_request_def keyless_db_def orders_db_def empty_world_def
        src_meta_def mysql_op_def safe_cols_orders choose_status)

text \<open>
  C7, amended.  \<^verbatim>\<open>update_only\<close> called with an empty key list exits with status 1 and has
  sent nothing to either database.  A run of \<^verbatim>\<open>main\<close> in UPDATE mode on a source table
  without a primary key always ends in \<^verbatim>\<open>sys.exit\<close>; the only thing MySQL can have received
  by then is the one primary-key metadata query, and SQL Server only the three catalog
  queries: no data query and no UPDATE is ever sent.  When the table and column answers are
  valid and the operator confirms, the exit status is 1 and the metadata query has run.
\<close>

theorem update_without_key_exits:
  assumes "a_mode a = UPDATE" and "src_pk w (a_schema a) (a_src_table a) = []"
  shows "update_only schema table [] upd_cols b wc w = (SysExit 1, w)
     \<and> (\<exists>code. fst (main a w) = SysExit code)
     \<and> (mysql_log (snd (main a w)) = mysql_log w
          \<or> mysql_log (snd (main a w)) = mysql_log w @ [MetaMysqlPk (a_mysql_db a) (a_mysql_table a)])
     \<and> (\<exists>metadata. src_log (snd (main a w)) = src_log w @ metadata
                     \<and> set metadata \<subseteq> {MetaTables (a_schema a),
                                        MetaColumns (a_schema a) (a_src_table a),
                                        MetaPrimaryKey (a_schema a) (a_src_table a)})
     \<and> (a_src_table a \<noteq> [] \<and> a_src_table a \<in> set (src_tables w (a_schema a))
          \<and> (\<exists>upd. choose_columns_interactive
                       (safe_cols (src_columns w (a_schema a) (a_src_table a))) (a_columns a)
                     = Inr upd)
          \<and> a_continue a
          \<longrightarrow> fst (main a w) = SysExit 1
              \<and> mysql_log (snd (main a w)) =
                  mysql_log w @ [MetaMysqlPk (a_mysql_db a) (a_mysql_table a)])"
proof -
  note eq = main_update_no_key [OF assms]
  have a: "update_only schema table [] upd_cols b wc w = (SysExit 1, w)"
    by (rule update_only_no_key)
  have b: "\<exists>code. fst (main a w) = SysExit code"
    unfolding eq using choose_columns_exit
    by (auto split: sum.splits)
  have c: "mysql_log (snd (main a w)) = mysql_log w
          \<or> mysql_log (snd (main a w)) = mysql_log w @ [MetaMysqlPk (a_mysql_db a) (a_mysql_table a)]"
    unfolding eq by (simp split: sum.splits)
  have d: "\<exists>metadata. src_log (snd (main a w)) = src_log w @ metadata
                     \<and> set metadata \<subseteq> {MetaTables (a_schema a),
                                        MetaColumns (a_schema a) (a_src_table a),
                                        MetaPrimaryKey (a_schema a) (a_src_table a)}"
    unfolding eq by (simp split: sum.splits)
  have e: "a_src_table a \<noteq> [] \<and> a_src_table a \<in> set (src_tables w (a_schema a))
          \<and> (\<exists>upd. choose_columns_interactive
                       (safe_cols (src_columns w (a_schema a) (a_src_table a))) (a_columns a)
                     = Inr upd)
          \<and> a_continue a
          \<longrightarrow> fst (main a w) = SysExit 1
              \<and> mysql_log (snd (main a w)) =
                  mysql_log w @ [MetaMysqlPk (a_mysql_db a) (a_mysql_table a)]"
    unfolding eq by auto
  from a b c d e show ?thesis by blast
qed

theorem update_without_key_exits_witness:
  "a_mode no_key_request = UPDATE
   \<and> src_pk keyless_db (a_schema no_key_request) (a_src_table no_key_request) = []
   \<and> update_only ''dbo'' ''orders'' [] [''status''] 10000 None keyless_db = (SysExit 1, keyless_db)
   \<and> fst (main no_key_request keyless_db) = SysExit 1
   \<and> mysql_log (snd (main no_key_request keyless_db)) = [MetaMysqlPk ''shop'' ''orders'']"
proof -
  have m: "a_mode no_key_request = UPDATE"
    by (simp add: no_key_request_def)
  have k: "src_pk keyless_db (a_schema no_key_request) (a_src_table no_key_request) = []"
    by (simp add: keyless_db_def)
  note t = update_without_key_exits
             [OF m k, of "''dbo''" "''orders''" "[''status'']" 10000 None]
  have u: "update_only ''dbo'' ''orders'' [] [''status''] 10000 None keyless_db = (SysExit 1, keyless_db)"
    using t by blast
  have r: "fst (main no_key_request keyless_db) = SysExit 1
     \<and> mysql_log (snd (main no_key_request keyless_db)) = [MetaMysqlPk ''shop'' ''orders'']"
    using t [THEN conjunct2, THEN conjunct2, THEN conjunct2, THEN conjunct2]
    by (simp add: no_key_request_def keyless_db_def orders_db_def empty_world_def
          safe_cols_orders choose_status)
  from m k u r show ?thesis by blast
qed



section \<open>Default expressions\<close>

lemma is_prefix_iff: "is_prefix p s \<longleftrightarrow> (\<exists>t. s = p @ t)"
  by (induction p s rule: is_prefix.induct) auto

lemma contains_iff: "contains sub s \<longleftrightarrow> (\<exists>a b. s = a @ sub @ b)"
proof (induction s)
  case Nil
  then show ?case by auto
next
  case (Cons c cs)
  show ?case
  proof
    assume "contains sub (c # cs)"
    then consider "is_prefix sub (c # cs)" | "contains sub cs" by auto
    then show "\<exists>a b. c # cs = a @ sub @ b"
    proof cases
      case 1
      then obtain t where "c # cs = sub @ t" by (auto simp: is_prefix_iff)
      then have "c # cs = [] @ sub @ t" by simp
      then show ?thesis by blast
    next
      case 2
      with Cons obtain a b where "cs = a @ sub @ b" by blast
      then have "c # cs = (c # a) @ sub @ b" by simp
      then show ?thesis by blast
    qed
  next
    assume "\<exists>a b. c # cs = a @ sub @ b"
    then obtain a b where ab: "c # cs = a @ sub @ b" by blast
    show "contains sub (c # cs)"
    proof (cases a)
      case Nil
      with ab have "is_prefix sub (c # cs)" by (auto simp: is_prefix_iff)
      then show ?thesis by simp
    next
      case (Cons x a')
      with ab have "cs = a' @ sub @ b" by simp
      with Cons.IH have "contains sub cs" by blast
      then show ?thesis by simp
    qed
  qed
qed

lemma py_join_member:
  "x \<in> set parts \<Longrightarrow> \<exists>a b. py_join sep parts = a @ x @ b"
proof (induction sep parts rule: py_join.induct)
  case (1 sep)
  then show ?case by simp
next
  case (2 sep p)
  then have "py_join sep [p] = [] @ x @ []" by simp
  then show ?case by blast
next
  case (3 sep p q ps)
  show ?case
  proof (cases "x = p")
    case True
    then have "py_join sep (p # q # ps) = [] @ x @ (sep @ py_join sep (q # ps))" by simp
    then show ?thesis by blast
  next
    case False
    with 3 obtain a b where "py_join sep (q # ps) = a @ x @ b" by auto
    then have "py_join sep (p # q # ps) = (p @ sep @ a) @ x @ b" by simp
    then show ?thesis by blast
  qed
qed

lemma default_clause_unrecognized:
  assumes "raw \<noteq> []" and "d = py_strip_chars ''()'' (py_strip raw)"
    and "py_lower d \<notin> set timestamp_spellings" and "py_lower d \<notin> set newid_spellings"
    and "\<not> py_float_ok d"
  shows "default_clause (Some raw) = '' DEFAULT '' @ [CHR 0x27] @ escape_literal d @ [CHR 0x27]"
  using assms by (simp add: default_clause_def Let_def)

lemma default_clause_empty_iff:
  "default_clause dflt = [] \<longleftrightarrow>
     dflt = None \<or> dflt = Some []
     \<or> (\<exists>raw. dflt = Some raw
            \<and> py_lower (py_strip_chars ''()'' (py_strip raw)) \<in> set newid_spellings)"
proof -
  have disj: "\<And>x. x \<in> set newid_spellings \<Longrightarrow> x \<notin> set timestamp_spellings"
    by (auto simp: newid_spellings_def timestamp_spellings_def)
  show ?thesis
    using disj
    by (cases dflt) (auto simp: default_clause_def Let_def)
qed

lemma ddl_contains_column_def:
  assumes "col \<in> set columns"
  shows "contains (column_def col) (build_create_table_mysql table columns pk_cols)"
proof -
  have "column_def col \<in> set (map column_def columns)"
    using assms by simp
  then have m: "\<And>extra. column_def col \<in> set (map column_def columns @ extra)"
    by simp
  have "\<exists>a b. py_join ('','' @ [CHR 0x0A] @ ''  '')
                 (if pk_cols \<noteq> []
                  then map column_def columns
                       @ [''PRIMARY KEY ('' @ py_join '', '' (map backquote pk_cols) @ '')'']
                  else map column_def columns) = a @ column_def col @ b"
    using m [of "[]"] m by (intro py_join_member) (auto simp del: map_append)
  then obtain a b where j: "py_join ('','' @ [CHR 0x0A] @ ''  '')
                 (if pk_cols \<noteq> []
                  then map column_def columns
                       @ [''PRIMARY KEY ('' @ py_join '', '' (map backquote pk_cols) @ '')'']
                  else map column_def columns) = a @ column_def col @ b"
    by blast
  have "build_create_table_mysql table columns pk_cols =
          (''CREATE TABLE IF NOT EXISTS '' @ backquote table @ '' ('' @ [CHR 0x0A] @ ''  '' @ a)
          @ column_def col
          @ (b @ [CHR 0x0A] @ '') ENGINE=InnoDB DEFAULT CHARSET=utf8mb4;'')"
    unfolding build_create_table_mysql_def Let_def j by simp
  then show ?thesis
    unfolding contains_iff by blast
qed

lemma contains_trans: "contains a b \<Longrightarrow> contains b c \<Longrightarrow> contains a c"
proof -
  assume "contains a b" "contains b c"
  then obtain p q r s where "b = p @ a @ q" "c = r @ b @ s"
    unfolding contains_iff by blast
  then have "c = (r @ p) @ a @ (q @ s)" by simp
  then show ?thesis unfolding contains_iff by blast
qed

lemma column_def_contains_default:
  "contains (default_clause (col_default col)) (column_def col)"
proof -
  have "column_def col =
          ([CHR 0x60] @ col_name col @ [CHR 0x60] @ '' '' @ sqlserver_to_mysql_type col
           @ (if is_identity col then '' AUTO_INCREMENT'' else [])
           @ (if \<not> nullable col \<or> is_identity col then '' NOT NULL'' else '' NULL''))
          @ default_clause (col_default col) @ []"
    unfolding column_def_def by simp
  then show ?thesis unfolding contains_iff by blast
qed

lemma dropWhile_leading:
  assumes "\<not> is_prefix [x] rest"
  shows "dropWhile (\<lambda>c. c \<in> set [x]) (replicate k x @ rest) = rest"
proof -
  have "dropWhile (\<lambda>c. c \<in> set [x]) rest = rest"
    using assms by (cases rest) auto
  then show ?thesis by (induction k) simp_all
qed

lemma py_replace_char_absent: "old \<notin> set s \<Longrightarrow> py_replace_char old new s = s"
  by (induction s) (auto simp: py_replace_char_def)

lemma py_strip_chars_absent:
  assumes "set chars \<inter> set s = {}"
  shows "py_strip_chars chars s = s"
proof -
  have a: "\<And>t. set chars \<inter> set t = {} \<Longrightarrow> dropWhile (\<lambda>c. c \<in> set chars) t = t"
  proof -
    fix t :: string assume "set chars \<inter> set t = {}"
    then show "dropWhile (\<lambda>c. c \<in> set chars) t = t" by (cases t) auto
  qed
  have "set chars \<inter> set (rev s) = {}" using assms by simp
  then show ?thesis using assms by (simp add: py_strip_chars_def a)
qed

lemma escape_literal_leading:
  assumes "\<not> is_prefix ''N'' rest"
  shows "escape_literal (replicate k (CHR ''N'') @ rest) = escape_literal rest"
  using dropWhile_leading [OF assms, of k] dropWhile_leading [OF assms, of 0]
  by (simp add: escape_literal_def py_lstrip_chars_def)

lemma escape_literal_plain:
  assumes "\<not> is_prefix ''N'' rest" and "CHR 0x27 \<notin> set rest" and "CHR 0x5C \<notin> set rest"
  shows "escape_literal rest = rest"
proof -
  have d: "py_lstrip_chars ''N'' rest = rest"
    using dropWhile_leading [OF assms(1), of 0] by (simp add: py_lstrip_chars_def)
  have s: "py_strip_chars [CHR 0x27] rest = rest"
    using assms(2) by (intro py_strip_chars_absent) simp
  show ?thesis
    unfolding escape_literal_def d s
    using assms(2,3) by (simp add: py_replace_char_absent)
qed

lemma escape_literal_no_leading:
  assumes "\<not> is_prefix ''N'' d"
  shows "escape_literal d =
           py_replace_char (CHR 0x27) [CHR 0x5C, CHR 0x27]
             (py_replace_char (CHR 0x5C) [CHR 0x5C, CHR 0x5C] (py_strip_chars [CHR 0x27] d))"
  using dropWhile_leading [OF assms, of 0]
  by (simp add: escape_literal_def py_lstrip_chars_def)

text \<open>
  C6 as stated fails: a default that is neither a timestamp spelling, nor \<^verbatim>\<open>newid\<close>, nor a
  number, nor a string literal is not dropped.  The \<^verbatim>\<open>except\<close> branch takes everything that
  \<^verbatim>\<open>float\<close> rejects, so the call \<^verbatim>\<open>(user_name())\<close> ends up in the DDL as the quoted text
  \<^verbatim>\<open>user_name\<close>.
\<close>

theorem unrecognized_default_counterexample:
  "py_strip_chars ''()'' (py_strip ''(user_name())'') = ''user_name''
   \<and> py_lower ''user_name'' \<notin> set timestamp_spellings
   \<and> py_lower ''user_name'' \<notin> set newid_spellings
   \<and> \<not> py_float_ok ''user_name''
   \<and> build_create_table_mysql ''t'' [owner_col] [] =
       ''CREATE TABLE IF NOT EXISTS '' @ [CHR 0x60] @ ''t'' @ [CHR 0x60] @ '' ('' @ [CHR 0x0A]
       @ ''  '' @ [CHR 0x60] @ ''owner'' @ [CHR 0x60] @ '' INT NULL DEFAULT '' @ [CHR 0x27]
       @ ''user_name'' @ [CHR 0x27] @ [CHR 0x0A] @ '') ENGINE=InnoDB DEFAULT CHARSET=utf8mb4;''"
  by code_simp

text \<open>
  C6, amended.  Take a column whose default is non-empty and whose text, after trimming
  blanks and outer parentheses, is not accepted by \<^verbatim>\<open>float\<close>, is not a \<^verbatim>\<open>newid\<close> spelling and
  is not one of the four timestamp spellings of the source, read with or without their own
  parentheses.  The DDL then contains a DEFAULT clause for that column, holding a
  single-quoted string literal.  When the trimmed text does not begin with \<^verbatim>\<open>N\<close>, the
  literal is the trimmed text with the single quotes at both ends dropped, every backslash
  doubled and every single quote preceded by a backslash.  Building the DDL has no failing
  branch.  A column gets no DEFAULT clause exactly when its default is absent, empty, or a
  \<^verbatim>\<open>newid\<close> spelling.
\<close>

theorem unrecognized_default_is_quoted:
  assumes "col_default col = Some raw" and "raw \<noteq> []"
    and "d = py_strip_chars ''()'' (py_strip raw)"
    and "py_lower d \<notin> set timestamp_spellings"
    and "py_lower d \<notin> set (map (py_strip_chars ''()'') timestamp_spellings)"
    and "py_lower d \<notin> set newid_spellings"
    and "\<not> py_float_ok d"
    and "col \<in> set columns"
  shows "(\<exists>lit. default_clause (col_default col) = '' DEFAULT '' @ [CHR 0x27] @ lit @ [CHR 0x27]
              \<and> contains ('' DEFAULT '' @ [CHR 0x27] @ lit @ [CHR 0x27])
                   (build_create_table_mysql table columns pk_cols))
     \<and> (\<not> is_prefix ''N'' d \<longrightarrow>
          default_clause (col_default col) =
            '' DEFAULT '' @ [CHR 0x27]
            @ py_replace_char (CHR 0x27) [CHR 0x5C, CHR 0x27]
                (py_replace_char (CHR 0x5C) [CHR 0x5C, CHR 0x5C] (py_strip_chars [CHR 0x27] d))
            @ [CHR 0x27]
        \<and> contains
            ('' DEFAULT '' @ [CHR 0x27]
             @ py_replace_char (CHR 0x27) [CHR 0x5C, CHR 0x27]
                 (py_replace_char (CHR 0x5C) [CHR 0x5C, CHR 0x5C] (py_strip_chars [CHR 0x27] d))
             @ [CHR 0x27])
            (build_create_table_mysql table columns pk_cols))
     \<and> (\<forall>dflt. default_clause dflt = [] \<longleftrightarrow>
            dflt = None \<or> dflt = Some []
            \<or> (\<exists>r. dflt = Some r
                   \<and> py_lower (py_strip_chars ''()'' (py_strip r)) \<in> set newid_spellings))"
proof -
  have c: "default_clause (col_default col) = '' DEFAULT '' @ [CHR 0x27] @ escape_literal d @ [CHR 0x27]"
    using default_clause_unrecognized [OF assms(2,3,4,6,7)] assms(1) by simp
  have "contains (default_clause (col_default col)) (build_create_table_mysql table columns pk_cols)"
    using contains_trans [OF column_def_contains_default ddl_contains_column_def [OF assms(8)]] .
  with c have k: "contains ('' DEFAULT '' @ [CHR 0x27] @ escape_literal d @ [CHR 0x27])
          (build_create_table_mysql table columns pk_cols)"
    by simp
  from c k have ex: "\<exists>lit. default_clause (col_default col) = '' DEFAULT '' @ [CHR 0x27] @ lit @ [CHR 0x27]
              \<and> contains ('' DEFAULT '' @ [CHR 0x27] @ lit @ [CHR 0x27])
                   (build_create_table_mysql table columns pk_cols)"
    by blast
  have plain: "\<not> is_prefix ''N'' d \<longrightarrow>
          default_clause (col_default col) =
            '' DEFAULT '' @ [CHR 0x27]
            @ py_replace_char (CHR 0x27) [CHR 0x5C, CHR 0x27]
                (py_replace_char (CHR 0x5C) [CHR 0x5C, CHR 0x5C] (py_strip_chars [CHR 0x27] d))
            @ [CHR 0x27]
        \<and> contains
            ('' DEFAULT '' @ [CHR 0x27]
             @ py_replace_char (CHR 0x27) [CHR 0x5C, CHR 0x27]
                 (py_replace_char (CHR 0x5C) [CHR 0x5C, CHR 0x5C] (py_strip_chars [CHR 0x27] d))
             @ [CHR 0x27])
            (build_create_table_mysql table columns pk_cols)"
    using c k escape_literal_no_leading by auto
  from ex plain default_clause_empty_iff show ?thesis by blast
qed

theorem unrecognized_default_is_quoted_witness:
  "col_default owner_col = Some ''(user_name())'' \<and> ''(user_name())'' \<noteq> []
   \<and> ''user_name'' = py_strip_chars ''()'' (py_strip ''(user_name())'')
   \<and> py_lower ''user_name'' \<notin> set timestamp_spellings
   \<and> py_lower ''user_name'' \<notin> set (map (py_strip_chars ''()'') timestamp_spellings)
   \<and> py_lower ''user_name'' \<notin> set newid_spellings
   \<and> \<not> py_float_ok ''user_name''
   \<and> owner_col \<in> set [owner_col]
   \<and> \<not> is_prefix ''N'' ''user_name''
   \<and> default_clause (col_default owner_col) = '' DEFAULT '' @ [CHR 0x27] @ ''user_name'' @ [CHR 0x27]
   \<and> contains ('' DEFAULT '' @ [CHR 0x27] @ ''user_name'' @ [CHR 0x27])
        (build_create_table_mysql ''t'' [owner_col] [])"
proof -
  have h1: "col_default owner_col = Some ''(user_name())''" by (simp add: owner_col_def)
  have h2: "''(user_name())'' \<noteq> []" by simp
  have h3: "''user_name'' = py_strip_chars ''()'' (py_strip ''(user_name())'')" by code_simp
  have h4: "py_lower ''user_name'' \<notin> set timestamp_spellings" by code_simp
  have h5: "py_lower ''user_name'' \<notin> set (map (py_strip_chars ''()'') timestamp_spellings)"
    by code_simp
  have h6: "py_lower ''user_name'' \<notin> set newid_spellings" by code_simp
  have h7: "\<not> py_float_ok ''user_name''" by code_simp
  have h8: "owner_col \<in> set [owner_col]" by simp
  have h9: "\<not> is_prefix ''N'' ''user_name''" by simp
  have e: "py_replace_char (CHR 0x27) [CHR 0x5C, CHR 0x27]
             (py_replace_char (CHR 0x5C) [CHR 0x5C, CHR 0x5C]
                (py_strip_chars [CHR 0x27] ''user_name'')) = ''user_name''" by code_simp
  note t = unrecognized_default_is_quoted
             [OF h1 h2 h3 h4 h5 h6 h7 h8, of "''t''" "[]", THEN conjunct2, THEN conjunct1]
  from t h9 e have "default_clause (col_default owner_col) = '' DEFAULT '' @ [CHR 0x27] @ ''user_name'' @ [CHR 0x27]
     \<and> contains ('' DEFAULT '' @ [CHR 0x27] @ ''user_name'' @ [CHR 0x27])
          (build_create_table_mysql ''t'' [owner_col] [])"
    by simp
  with h1 h2 h3 h4 h5 h6 h7 h8 h9 show ?thesis by blast
qed

text \<open>
  C10 as stated fails in two ways.  The literal is not just the stripped text: backslashes
  are doubled and single quotes get a backslash, so \<^verbatim>\<open>('C:\temp')\<close> becomes
  \<^verbatim>\<open>'C:\\temp'\<close>.  And the leading \<^verbatim>\<open>N\<close>s are stripped before the quotes are, so a quoted
  text that begins with \<^verbatim>\<open>N\<close> keeps it: \<^verbatim>\<open>('None')\<close> becomes \<^verbatim>\<open>'None'\<close>.
\<close>

theorem default_literal_text_counterexample:
  "default_clause (Some (''('' @ [CHR 0x27] @ ''C:'' @ [CHR 0x5C] @ ''temp'' @ [CHR 0x27] @ '')''))
     = '' DEFAULT '' @ [CHR 0x27] @ ''C:'' @ [CHR 0x5C, CHR 0x5C] @ ''temp'' @ [CHR 0x27]
   \<and> default_clause (Some (''('' @ [CHR 0x27] @ ''None'' @ [CHR 0x27] @ '')''))
     = '' DEFAULT '' @ [CHR 0x27] @ ''None'' @ [CHR 0x27]"
  by code_simp

text \<open>
  C10, amended.  For a non-empty default that, after trimming blanks and outer parentheses,
  is neither a timestamp spelling nor a \<^verbatim>\<open>newid\<close> spelling nor accepted by \<^verbatim>\<open>float\<close>, the
  DEFAULT literal is that trimmed text with every leading \<^verbatim>\<open>N\<close> dropped, then the single
  quotes at both ends dropped, then every backslash doubled and every single quote
  preceded by a backslash.  So a trimmed text made of some \<^verbatim>\<open>N\<close>s followed by a rest that
  does not begin with \<^verbatim>\<open>N\<close> yields the literal of the rest alone, and when the rest holds
  no quote and no backslash the literal is the rest itself: \<^verbatim>\<open>(NULL)\<close> becomes \<^verbatim>\<open>'ULL'\<close>.
\<close>

theorem default_literal_text:
  assumes "raw \<noteq> []"
    and "d = py_strip_chars ''()'' (py_strip raw)"
    and "py_lower d \<notin> set timestamp_spellings" and "py_lower d \<notin> set newid_spellings"
    and "\<not> py_float_ok d"
  shows "default_clause (Some raw) =
           '' DEFAULT '' @ [CHR 0x27]
           @ py_replace_char (CHR 0x27) [CHR 0x5C, CHR 0x27]
               (py_replace_char (CHR 0x5C) [CHR 0x5C, CHR 0x5C]
                  (py_strip_chars [CHR 0x27] (dropWhile (\<lambda>c. c = CHR ''N'') d)))
           @ [CHR 0x27]
     \<and> (\<forall>k rest. d = replicate k (CHR ''N'') @ rest \<and> \<not> is_prefix ''N'' rest \<longrightarrow>
            default_clause (Some raw) =
              '' DEFAULT '' @ [CHR 0x27] @ escape_literal rest @ [CHR 0x27])
     \<and> (\<forall>k rest. d = replicate k (CHR ''N'') @ rest \<and> \<not> is_prefix ''N'' rest
                   \<and> CHR 0x27 \<notin> set rest \<and> CHR 0x5C \<notin> set rest \<longrightarrow>
            default_clause (Some raw) = '' DEFAULT '' @ [CHR 0x27] @ rest @ [CHR 0x27])"
proof -
  note c = default_clause_unrecognized [OF assms]
  have a: "default_clause (Some raw) =
           '' DEFAULT '' @ [CHR 0x27]
           @ py_replace_char (CHR 0x27) [CHR 0x5C, CHR 0x27]
               (py_replace_char (CHR 0x5C) [CHR 0x5C, CHR 0x5C]
                  (py_strip_chars [CHR 0x27] (dropWhile (\<lambda>c. c = CHR ''N'') d)))
           @ [CHR 0x27]"
    unfolding c by (simp add: escape_literal_def py_lstrip_chars_def)
  have b: "\<forall>k rest. d = replicate k (CHR ''N'') @ rest \<and> \<not> is_prefix ''N'' rest \<longrightarrow>
            default_clause (Some raw) =
              '' DEFAULT '' @ [CHR 0x27] @ escape_literal rest @ [CHR 0x27]"
    unfolding c using escape_literal_leading by auto
  have e: "\<forall>k rest. d = replicate k (CHR ''N'') @ rest \<and> \<not> is_prefix ''N'' rest
                   \<and> CHR 0x27 \<notin> set rest \<and> CHR 0x5C \<notin> set rest \<longrightarrow>
            default_clause (Some raw) = '' DEFAULT '' @ [CHR 0x27] @ rest @ [CHR 0x27]"
    unfolding c using escape_literal_leading escape_literal_plain by auto
  from a b e show ?thesis by blast
qed

theorem default_literal_text_witness:
  "''(NULL)'' \<noteq> [] \<and> ''NULL'' = py_strip_chars ''()'' (py_strip ''(NULL)'')
   \<and> py_lower ''NULL'' \<notin> set timestamp_spellings \<and> py_lower ''NULL'' \<notin> set newid_spellings
   \<and> \<not> py_float_ok ''NULL''
   \<and> ''NULL'' = replicate 1 (CHR ''N'') @ ''ULL'' \<and> \<not> is_prefix ''N'' ''ULL''
   \<and> CHR 0x27 \<notin> set ''ULL'' \<and> CHR 0x5C \<notin> set ''ULL''
   \<and> default_clause (Some ''(NULL)'') = '' DEFAULT '' @ [CHR 0x27] @ ''ULL'' @ [CHR 0x27]"
proof -
  have h1: "''(NULL)'' \<noteq> []" by simp
  have h2: "''NULL'' = py_strip_chars ''()'' (py_strip ''(NULL)'')" by code_simp
  have h3: "py_lower ''NULL'' \<notin> set timestamp_spellings" by code_simp
  have h4: "py_lower ''NULL'' \<notin> set newid_spellings" by code_simp
  have h5: "\<not> py_float_ok ''NULL''" by code_simp
  have h6: "''NULL'' = replicate 1 (CHR ''N'') @ ''ULL''" by simp
  have h7: "\<not> is_prefix ''N'' ''ULL''" by simp
  have h8: "CHR 0x27 \<notin> set ''ULL''" "CHR 0x5C \<notin> set ''ULL''" by simp_all
  note t = default_literal_text [OF h1 h2 h3 h4 h5, THEN conjunct2, THEN conjunct2,
             THEN spec, of 1, THEN spec, of "''ULL''"]
  from t h6 h7 h8
  have "default_clause (Some ''(NULL)'') = '' DEFAULT '' @ [CHR 0x27] @ ''ULL'' @ [CHR 0x27]"
    by blast
  with h1 h2 h3 h4 h5 h6 h7 h8 show ?thesis by blast
qed

end
